theory Spec2Isabelle
  imports Main
begin

section \<open>Errors\<close>

text \<open>
  A Go \<^verbatim>\<open>error\<close> value is either \<^verbatim>\<open>nil\<close> (\<open>None\<close>) or an error. An error is a
  message (\<^verbatim>\<open>errors.New\<close>, \<^verbatim>\<open>fmt.Errorf\<close>, or one handed back by a collaborator) or an
  error wrapped with a context message by \<^verbatim>\<open>errors.Wrap\<close>/\<^verbatim>\<open>errors.Wrapf\<close> of
  \<^verbatim>\<open>github.com/pkg/errors\<close>, whose \<^verbatim>\<open>Error()\<close> is \<^verbatim>\<open>message + ": " + cause.Error()\<close>
  and which return \<^verbatim>\<open>nil\<close> for a \<^verbatim>\<open>nil\<close> cause.
\<close>

datatype error = Err string | Wrap error string

fun error_Error :: "error \<Rightarrow> string" where
  "error_Error (Err m) = m"
| "error_Error (Wrap e m) = m @ '': '' @ error_Error e"

fun errors_Wrap :: "error option \<Rightarrow> string \<Rightarrow> error option" where
  "errors_Wrap None m = None"
| "errors_Wrap (Some e) m = Some (Wrap e m)"

section \<open>Storage objects and listing options\<close>

text \<open>
  \<^verbatim>\<open>storage.Object\<close> of the file-system facade, with the three methods the code reads.
  Times are nanoseconds on the integer line.
\<close>

record Object =
  URL :: string
  IsDir :: bool
  ModTime :: int

text \<open>
  \<^verbatim>\<open>storage.Option\<close>: the values passed to \<^verbatim>\<open>fs.List\<close>. \<open>Basic\<close> is
  \<^verbatim>\<open>matcher.NewBasic(prefix, suffix, filter, nil)\<close>, \<open>Modification\<close> is
  \<^verbatim>\<open>matcher.NewModification(before, after)\<close>, \<open>Credentials\<close> stands for whatever the
  secret facade materialises.
\<close>

datatype storage_Option =
  Basic string string string
| Modification "int option" "int option"
| Credentials string

section \<open>The rule set (\<^verbatim>\<open>config.Resources\<close>)\<close>

text \<open>
  The struct \<^verbatim>\<open>Resources\<close>. The rule type \<open>'r\<close> and the state \<open>'m\<close> of the metadata
  watcher \<^verbatim>\<open>base.Meta\<close> are declared outside the files at hand and stay abstract.
  Rules are held by value: the slice of pointers \<^verbatim>\<open>[]*Resource\<close> becomes a list.
\<close>

record ('r, 'm) Resources =
  BaseURL :: string
  CheckInMs :: int
  Rules :: "'r list"
  initialRules :: "'r list"
  inited :: int
  projectID :: string
  meta :: 'm

text \<open>
  \<^verbatim>\<open>afs.Service\<close>, the file-system facade, as the record of the three methods the
  rule set and the cron service call. Every call on the outside world takes the world
  \<open>'w\<close> and returns the new one next to Go's result pair \<^verbatim>\<open>(value, err)\<close>.
\<close>

record 'w afs =
  fs_Exists :: "string \<Rightarrow> 'w \<Rightarrow> (bool \<times> error option) \<times> 'w"
  fs_List :: "string \<Rightarrow> storage_Option list \<Rightarrow> 'w \<Rightarrow> (Object list \<times> error option) \<times> 'w"
  fs_Download :: "Object \<Rightarrow> 'w \<Rightarrow> (string \<times> error option) \<times> 'w"

text \<open>
  The package-level functions and library calls whose code is not at hand.
  \<open>json_Decode\<close> is \<^verbatim>\<open>json.NewDecoder(reader).Decode(&resources)\<close> on the downloaded
  content, \<open>Rule_Init\<close> is the rule's own \<^verbatim>\<open>Init(projectID)\<close>, \<open>NewMeta\<close> and
  \<open>HasChanged\<close> are \<^verbatim>\<open>base.NewMeta\<close> and \<^verbatim>\<open>(*base.Meta).HasChanged\<close>.
\<close>

record ('w, 'r, 'm) deps =
  json_Decode :: "string \<Rightarrow> 'r list \<times> error option"
  Rule_Init :: "string \<Rightarrow> 'r \<Rightarrow> 'r"
  NewMeta :: "string \<Rightarrow> int \<Rightarrow> 'm"
  HasChanged :: "'m \<Rightarrow> 'w afs \<Rightarrow> 'w \<Rightarrow> (bool \<times> error option) \<times> 'm \<times> 'w"

definition initRules :: "('r, 'm) Resources \<Rightarrow> ('r, 'm) Resources" where
  "initRules r =
     (if inited r = 0 then
        (if length (Rules r) > 0
         then r\<lparr>inited := 1, initialRules := Rules r\<rparr>
         else r\<lparr>inited := 1, initialRules := []\<rparr>)
      else r)"

text \<open>The deferred \<^verbatim>\<open>reader.Close()\<close> discards its error and is left out.\<close>

definition loadResources ::
  "('w, 'r, 'm) deps \<Rightarrow> 'w afs \<Rightarrow> Object \<Rightarrow> ('r, 'm) Resources \<Rightarrow> 'w
     \<Rightarrow> error option \<times> ('r, 'm) Resources \<times> 'w" where
  "loadResources d storage object r w =
     (case fs_Download storage object w of
        ((reader, Some e), w1) \<Rightarrow> (Some e, r, w1)
      | ((reader, None), w1) \<Rightarrow>
          (case json_Decode d reader of
             (resources, Some e) \<Rightarrow>
               (Some (Wrap e (''failed to decode: '' @ URL object)), r, w1)
           | (resources, None) \<Rightarrow> (None, r\<lparr>Rules := Rules r @ resources\<rparr>, w1)))"

text \<open>The loop \<^verbatim>\<open>for _, object := range routesObject\<close> of \<^verbatim>\<open>loadAllResources\<close>.\<close>

fun loadEach ::
  "('w, 'r, 'm) deps \<Rightarrow> 'w afs \<Rightarrow> Object list \<Rightarrow> ('r, 'm) Resources \<Rightarrow> 'w
     \<Rightarrow> error option \<times> ('r, 'm) Resources \<times> 'w" where
  "loadEach d storage [] r w = (None, r, w)"
| "loadEach d storage (object # rest) r w =
     (if IsDir object then loadEach d storage rest r w
      else (case loadResources d storage object r w of
              (Some e, r1, w1) \<Rightarrow> (Some e, r1, w1)
            | (None, r1, w1) \<Rightarrow> loadEach d storage rest r1 w1))"

definition loadAllResources ::
  "('w, 'r, 'm) deps \<Rightarrow> 'w afs \<Rightarrow> ('r, 'm) Resources \<Rightarrow> 'w
     \<Rightarrow> error option \<times> ('r, 'm) Resources \<times> 'w" where
  "loadAllResources d storage r w =
     (if BaseURL r = [] then (None, r, w)
      else
        (let r1 = r\<lparr>Rules := initialRules r\<rparr> in
         case fs_Exists storage (BaseURL r) w of
           ((exists, err), w1) \<Rightarrow>
             if err \<noteq> None \<or> \<not> exists then (err, r1, w1)
             else
               (case fs_List storage (BaseURL r) [Basic [] ''.json'' []] w1 of
                  ((routesObject, Some e), w2) \<Rightarrow> (Some e, r1, w2)
                | ((routesObject, None), w2) \<Rightarrow> loadEach d storage routesObject r1 w2)))"

text \<open>
  \<^verbatim>\<open>r.Rules[i].Init(r.projectID)\<close> updates every rule of the snapshot in place; by value
  it is a map over \<open>Rules\<close>.
\<close>

definition loadAndInit ::
  "('w, 'r, 'm) deps \<Rightarrow> 'w afs \<Rightarrow> ('r, 'm) Resources \<Rightarrow> 'w
     \<Rightarrow> error option \<times> ('r, 'm) Resources \<times> 'w" where
  "loadAndInit d storage r w =
     (case loadAllResources d storage r w of
        (Some e, r1, w1) \<Rightarrow> (Some e, r1, w1)
      | (None, r1, w1) \<Rightarrow>
          (None, r1\<lparr>Rules := map (Rule_Init d (projectID r1)) (Rules r1)\<rparr>, w1))"

definition Millisecond :: int where
  "Millisecond = 1000000"

definition Resources_Init ::
  "('w, 'r, 'm) deps \<Rightarrow> 'w afs \<Rightarrow> string \<Rightarrow> ('r, 'm) Resources \<Rightarrow> 'w
     \<Rightarrow> error option \<times> ('r, 'm) Resources \<times> 'w" where
  "Resources_Init d storage pid r w =
     (let r1 = initRules r;
          r2 = r1\<lparr>projectID := pid\<rparr>;
          r3 = r2\<lparr>meta := NewMeta d (BaseURL r2) (CheckInMs r2 * Millisecond)\<rparr>
      in loadAndInit d storage r3 w)"

definition ReloadIfNeeded ::
  "('w, 'r, 'm) deps \<Rightarrow> 'w afs \<Rightarrow> ('r, 'm) Resources \<Rightarrow> 'w
     \<Rightarrow> (bool \<times> error option) \<times> ('r, 'm) Resources \<times> 'w" where
  "ReloadIfNeeded d storage r w =
     (case HasChanged d (meta r) storage w of
        ((changed, err), m1, w1) \<Rightarrow>
          if err \<noteq> None \<or> \<not> changed then ((changed, err), r\<lparr>meta := m1\<rparr>, w1)
          else (case loadAndInit d storage (r\<lparr>meta := m1\<rparr>) w1 of
                  (err1, r1, w2) \<Rightarrow> ((True, err1), r1, w2)))"

section \<open>The event entry point (\<^verbatim>\<open>fn.go\<close>)\<close>

text \<open>
  \<^verbatim>\<open>Response\<close> with the two fields the entry point reads. The event \<open>'e\<close>, the mirror
  service \<open>'s\<close>, \<^verbatim>\<open>NewFromEnv\<close> and \<^verbatim>\<open>Mirror\<close> are declared in files that are not at
  hand; \<open>Sprintf\<close> is \<^verbatim>\<open>fmt.Sprintf\<close> of a format string without operands, which is what
  \<^verbatim>\<open>fmt.Errorf(response.Error)\<close> makes of the response's error text. The lines printed
  when \<^verbatim>\<open>LOGGING\<close> is set, and the clock read for them, do not reach the result and are
  left out.
\<close>

record Response =
  Status :: string
  Error :: string

record Request =
  Request_URL :: string

definition NewRequest :: "string \<Rightarrow> Request" where
  \<comment> \<open>Modelled from the spec: \<^verbatim>\<open>NewRequest\<close> is missing; a request carries its
      \<^verbatim>\<open>source_url\<close>.\<close>
  "NewRequest u = \<lparr>Request_URL = u\<rparr>"

record ('w, 'e, 's, 'x) mirror_deps =
  Event_URL :: "'e \<Rightarrow> string"
  NewFromEnv :: "string \<Rightarrow> 'w \<Rightarrow> ('s \<times> error option) \<times> 'w"
  Mirror :: "'s \<Rightarrow> Request \<Rightarrow> 'w \<Rightarrow> 'x Response_scheme \<times> 'w"
  Sprintf :: "string \<Rightarrow> string"

definition ConfigEnvKey :: string where
  "ConfigEnvKey = ''CONFIG''"

definition fn ::
  "('w, 'e, 's, 'x) mirror_deps \<Rightarrow> 'e \<Rightarrow> 'w
     \<Rightarrow> ('x Response_scheme option \<times> error option) \<times> 'w" where
  "fn md event w =
     (case NewFromEnv md ConfigEnvKey w of
        ((service, Some e), w1) \<Rightarrow> ((None, Some e), w1)
      | ((service, None), w1) \<Rightarrow>
          (case Mirror md service (NewRequest (Event_URL md event)) w1 of
             (response, w2) \<Rightarrow>
               if Error response \<noteq> []
               then ((None, Some (Err (Sprintf md (Error response)))), w2)
               else ((Some response, None), w2)))"

definition Fn :: "('w, 'e, 's, 'x) mirror_deps \<Rightarrow> 'e \<Rightarrow> 'w \<Rightarrow> error option \<times> 'w" where
  "Fn md event w =
     (case fn md event w of
        ((response, Some e), w1) \<Rightarrow>
          (Some (Wrap e (''failed to mirror '' @ Event_URL md event)), w1)
      | ((response, None), w1) \<Rightarrow> (None, w1))"

section \<open>The cron service: shared types\<close>

text \<open>
  A run of the service either returns, or panics on a call through a \<^verbatim>\<open>nil\<close>
  interface, or exhausts the fuel that bounds the recursion through nested listings.
\<close>

datatype 'a outcome = OutOfFuel | Panic | Return 'a

text \<open>
  \<^verbatim>\<open>cfg.Resource\<close> and the rule of the cron configuration, with the fields the service
  reads; their declarations are not at hand. \<^verbatim>\<open>matcher.Basic\<close> keeps a prefix, a suffix
  and a filter expression, and its \<^verbatim>\<open>Match\<close> is a library call (\<open>Basic_Match\<close> below).
\<close>

record Basic_matcher =
  Prefix :: string
  Suffix :: string
  Filter :: string

record Resource =
  Resource_URL :: string
  Resource_Basic :: Basic_matcher
  Resource_Credentials :: string

definition CloneWithURL :: "Resource \<Rightarrow> string \<Rightarrow> Resource" where
  \<comment> \<open>Modelled from the spec: \<^verbatim>\<open>Resource.CloneWithURL\<close> is missing; the clone is the
      resource descriptor with its \<^verbatim>\<open>url\<close> replaced.\<close>
  "CloneWithURL r u = r\<lparr>Resource_URL := u\<rparr>"

record Rule =
  Source :: Resource
  Dest :: Resource
  Move :: bool

text \<open>The rule of the variant with triggers embeds its one resource.\<close>

record trigger_Rule =
  Rule_Resource :: Resource

record ('r, 'm) Config =
  Config_Resources :: "('r, 'm) Resources"
  SourceScheme :: string
  MetaURL :: string
  TimeWindow :: int

record 'w secret_Service =
  StorageOpts :: "Resource \<Rightarrow> 'w \<Rightarrow> (storage_Option list \<times> error option) \<times> 'w"
  secret_Init :: "'w afs \<Rightarrow> Resource list \<Rightarrow> 'w \<Rightarrow> error option \<times> 'w"

record 'w meta_Service =
  PendingResources :: "Object list \<Rightarrow> 'w \<Rightarrow> (Object list \<times> error option) \<times> 'w"
  AddProcessed :: "Object list \<Rightarrow> 'w \<Rightarrow> error option \<times> 'w"

record 'w trigger_Service =
  Trigger :: "trigger_Rule \<Rightarrow> Object \<Rightarrow> 'w \<Rightarrow> error option \<times> 'w"

text \<open>
  The fields that the \<^verbatim>\<open>service\<close> struct has in both variants; the variant with the
  proxy adds \<^verbatim>\<open>proxy\<close>, the one with triggers adds \<^verbatim>\<open>dest\<close>. An interface field may be
  \<^verbatim>\<open>nil\<close> where the code tests it or leaves it unset.
\<close>

record ('w, 'r, 'm) cron_service =
  config :: "('r, 'm) Config"
  fs :: "'w afs"
  secret :: "'w secret_Service option"
  metaService :: "'w meta_Service"

text \<open>
  Library calls and the runtime, for both variants of the service: \<^verbatim>\<open>time.Now()\<close>,
  \<^verbatim>\<open>url.Base\<close>, \<^verbatim>\<open>url.Scheme\<close>, \<^verbatim>\<open>(*matcher.Basic).Match\<close>, \<^verbatim>\<open>lambda.New()\<close>,
  \<^verbatim>\<open>mem.New(fs)\<close> and the configuration's own \<^verbatim>\<open>Init\<close>. \<open>schedule\<close> is the order in which the runtime lets the
  concurrent notifications of one rule take effect and report: the notifications are
  taken as atomic steps, run one after the other in that order, and their results reach
  the error channel in that order. It is meant to be a permutation of its argument.
\<close>

record ('w, 'r, 'm) runtime =
  Now :: "'w \<Rightarrow> int"
  url_Base :: "string \<Rightarrow> string \<Rightarrow> string \<times> string"
  url_Scheme :: "string \<Rightarrow> string \<Rightarrow> string"
  Basic_Match :: "Basic_matcher \<Rightarrow> string \<Rightarrow> Object \<Rightarrow> bool"
  schedule :: "Object list \<Rightarrow> Object list"
  lambda_New :: "'w \<Rightarrow> ('w trigger_Service option \<times> error option) \<times> 'w"
  mem_New :: "'w afs \<Rightarrow> 'w trigger_Service"
  Config_Init :: "('r, 'm) Config \<Rightarrow> 'w afs \<Rightarrow> 'w \<Rightarrow> (error option \<times> ('r, 'm) Config) \<times> 'w"

text \<open>\<^verbatim>\<open>path.Split\<close> of the standard library: the cut after the last slash.\<close>

definition path_Split :: "string \<Rightarrow> string \<times> string" where
  "path_Split p =
     (let n = length (takeWhile (\<lambda>c. c \<noteq> CHR ''/'') (rev p))
      in (take (length p - n) p, drop (length p - n) p))"

definition file_Scheme :: string where
  "file_Scheme = ''file''"

text \<open>The receive loop over the error channel: the first error that is not \<^verbatim>\<open>nil\<close>.\<close>

fun first_error :: "error option list \<Rightarrow> error option" where
  "first_error [] = None"
| "first_error (Some e # errs) = Some e"
| "first_error (None # errs) = first_error errs"

text \<open>\<^verbatim>\<open>%v\<close> of a length: the decimal numeral.\<close>

fun decimal :: "nat \<Rightarrow> string" where
  "decimal n =
     (if n < 10 then [char_of (48 + n)]
      else decimal (n div 10) @ [char_of (48 + n mod 10)])"

declare decimal.simps [simp del]

section \<open>The cron service with the proxy and the worker pool\<close>

text \<open>
  The response of a tick, as far as the code at hand writes it: the status and error text,
  the maps filled from the proxy's responses and the matched rules.
\<close>

record proxy_Response = Response +
  Moved :: "string \<rightharpoonup> string"
  Copied :: "string \<rightharpoonup> string"
  Invoked :: "string \<rightharpoonup> string"

record Matched =
  Matched_Resource :: Rule
  URLs :: "string list"

record cron_Response = proxy_Response +
  Response_Matched :: "Matched list"

definition StatusOK :: string where
  \<comment> \<open>Modelled from the spec: \<^verbatim>\<open>base.StatusOK\<close> is missing; the status is
      \<^verbatim>\<open>ok | error | noop\<close>.\<close>
  "StatusOK = ''ok''"

definition StatusError :: string where
  \<comment> \<open>Modelled from the spec: \<^verbatim>\<open>base.StatusError\<close> is missing; the status is
      \<^verbatim>\<open>ok | error | noop\<close>.\<close>
  "StatusError = ''error''"

definition NewResponse :: cron_Response where
  \<comment> \<open>Modelled from the spec: \<^verbatim>\<open>cron.NewResponse(proxy.NewResponse())\<close> is missing; a
      fresh response has status \<^verbatim>\<open>ok\<close>, no error and nothing recorded.\<close>
  "NewResponse = \<lparr>Status = StatusOK, Error = [], Moved = Map.empty, Copied = Map.empty,
                   Invoked = Map.empty, Response_Matched = []\<rparr>"

definition Limit :: nat where
  "Limit = 50"

record proxy_Request =
  Request_Source :: Resource
  Request_Dest :: Resource
  Request_Move :: bool
  Request_Stream :: bool

record 'w proxy_Service =
  Proxy :: "proxy_Request \<Rightarrow> 'w \<Rightarrow> proxy_Response \<times> 'w"

record ('w, 'm) service = "('w, Rule, 'm) cron_service" +
  proxy :: "'w proxy_Service"

definition addLastModifiedTimeMatcher ::
  "('w, 'r, 'm) runtime \<Rightarrow> ('w, 'r, 'm, 'x) cron_service_scheme \<Rightarrow> storage_Option list \<Rightarrow> 'w
     \<Rightarrow> storage_Option list" where
  "addLastModifiedTimeMatcher rt s options w =
     (let afterTime = Now rt w - TimeWindow (config s)
      in options @ [Modification None (Some afterTime)])"

text \<open>
  \<^verbatim>\<open>appendResources\<close> and its loop \<^verbatim>\<open>for i := range objects\<close>; \<open>i\<close> is the index of the
  head of the remaining objects. The recursion follows the listings of the store, which
  need not be finite, so it runs on fuel: one unit for each nested listing. Of the service
  it reads the field \<^verbatim>\<open>fs\<close> only.
\<close>

fun appendResources ::
  "nat \<Rightarrow> ('w, 'r, 'm) runtime \<Rightarrow> ('w, 'r, 'm, 'x) cron_service_scheme \<Rightarrow> string
     \<Rightarrow> Object list \<Rightarrow> Basic_matcher \<Rightarrow> storage_Option list \<Rightarrow> 'w
     \<Rightarrow> (error option \<times> Object list \<times> 'w) outcome"
and appendEach ::
  "nat \<Rightarrow> ('w, 'r, 'm) runtime \<Rightarrow> ('w, 'r, 'm, 'x) cron_service_scheme \<Rightarrow> nat
     \<Rightarrow> Object list \<Rightarrow> Object list \<Rightarrow> Basic_matcher \<Rightarrow> storage_Option list \<Rightarrow> 'w
     \<Rightarrow> (error option \<times> Object list \<times> 'w) outcome" where
  "appendResources 0 rt s url result matcher options w = OutOfFuel"
| "appendResources (Suc fuel) rt s url result matcher options w =
     (case fs_List (fs s) url options w of
        ((objects, Some e), w1) \<Rightarrow> Return (Some e, result, w1)
      | ((objects, None), w1) \<Rightarrow> appendEach fuel rt s 0 objects result matcher options w1)"
| "appendEach fuel rt s i [] result matcher options w = Return (None, result, w)"
| "appendEach fuel rt s i (object # rest) result matcher options w =
     (if i = 0 \<and> IsDir object then appendEach fuel rt s (Suc i) rest result matcher options w
      else if IsDir object then
        (case appendResources fuel rt s (URL object) result matcher options w of
           OutOfFuel \<Rightarrow> OutOfFuel
         | Panic \<Rightarrow> Panic
         | Return (Some e, result1, w1) \<Rightarrow> Return (Some e, result1, w1)
         | Return (None, result1, w1) \<Rightarrow>
             appendEach fuel rt s (Suc i) rest result1 matcher options w1)
      else
        (let URLPath = snd (url_Base rt (URL object) file_Scheme);
             parent = fst (path_Split URLPath)
         in if Basic_Match rt matcher parent object
            then appendEach fuel rt s (Suc i) rest (result @ [object]) matcher options w
            else appendEach fuel rt s (Suc i) rest result matcher options w))"

text \<open>
  \<^verbatim>\<open>return result, s.appendResources(ctx, ..., &result, ...)\<close>: the slice returned is the
  one the call has filled.
\<close>

definition getResourceCandidates ::
  "nat \<Rightarrow> ('w, Rule, 'm) runtime \<Rightarrow> ('w, 'm) service \<Rightarrow> Rule \<Rightarrow> 'w
     \<Rightarrow> ((Object list \<times> error option) \<times> 'w) outcome" where
  "getResourceCandidates fuel rt s resource w =
     (case secret s of
        None \<Rightarrow> Panic
      | Some sec \<Rightarrow>
          (case StorageOpts sec (Source resource) w of
             ((options, Some e), w1) \<Rightarrow> Return (([], Some e), w1)
           | ((options, None), w1) \<Rightarrow>
               (let options1 = addLastModifiedTimeMatcher rt s options w1 in
                case appendResources fuel rt s (Resource_URL (Source resource)) []
                       (Resource_Basic (Source resource)) options1 w1 of
                  OutOfFuel \<Rightarrow> OutOfFuel
                | Panic \<Rightarrow> Panic
                | Return (err, result, w2) \<Rightarrow> Return ((result, err), w2))))"

definition notify ::
  "('w, 'm) service \<Rightarrow> Rule \<Rightarrow> Object \<Rightarrow> cron_Response \<Rightarrow> 'w
     \<Rightarrow> error option \<times> cron_Response \<times> 'w" where
  "notify s rule object response w =
     (case Proxy (proxy s)
             \<lparr>Request_Source = CloneWithURL (Source rule) (URL object),
              Request_Dest = Dest rule, Request_Move = Move rule, Request_Stream = True\<rparr> w of
        (proxyResponse, w1) \<Rightarrow>
          if Error proxyResponse \<noteq> [] then (Some (Err (Error proxyResponse)), response, w1)
          else (None,
                response\<lparr>Moved := Moved response ++ Moved proxyResponse,
                         Copied := Copied response ++ Copied proxyResponse,
                         Invoked := Invoked response ++ Invoked proxyResponse\<rparr>,
                w1))"

text \<open>
  The notifications of one rule in the order they take effect, with the errors in the
  order they reach the error channel.
\<close>

fun notifyEach ::
  "('w, 'm) service \<Rightarrow> Rule \<Rightarrow> Object list \<Rightarrow> cron_Response \<Rightarrow> 'w
     \<Rightarrow> error option list \<times> cron_Response \<times> 'w" where
  "notifyEach s rule [] response w = ([], response, w)"
| "notifyEach s rule (object # rest) response w =
     (case notify s rule object response w of
        (err, response1, w1) \<Rightarrow>
          (case notifyEach s rule rest response1 w1 of
             (errs, response2, w2) \<Rightarrow> (err # errs, response2, w2)))"

text \<open>
  \<^verbatim>\<open>notifyAll\<close>: the \<open>Limit\<close> workers drain the queue, \<^verbatim>\<open>waitGroup.Wait()\<close> returns once
  every object has been notified, and only then the error channel is read.
\<close>

definition notifyAll ::
  "('w, Rule, 'm) runtime \<Rightarrow> ('w, 'm) service \<Rightarrow> Rule \<Rightarrow> Object list \<Rightarrow> cron_Response \<Rightarrow> 'w
     \<Rightarrow> error option \<times> cron_Response \<times> 'w" where
  "notifyAll rt s resource objects response w =
     (if length objects = 0 then (None, response, w)
      else (case notifyEach s resource (schedule rt objects) response w of
              (errs, response1, w1) \<Rightarrow> (first_error errs, response1, w1)))"

definition processResource ::
  "nat \<Rightarrow> ('w, Rule, 'm) runtime \<Rightarrow> ('w, 'm) service \<Rightarrow> Rule \<Rightarrow> cron_Response \<Rightarrow> 'w
     \<Rightarrow> ((Object list \<times> error option) \<times> cron_Response \<times> 'w) outcome" where
  "processResource fuel rt s resource response w =
     (case getResourceCandidates fuel rt s resource w of
        OutOfFuel \<Rightarrow> OutOfFuel
      | Panic \<Rightarrow> Panic
      | Return ((objects, Some e), w1) \<Rightarrow>
          Return (([], Some (Wrap e (''failed to get resource candidate ''
                                      @ Resource_URL (Source resource)))), response, w1)
      | Return ((objects, None), w1) \<Rightarrow>
          (case PendingResources (metaService s) objects w1 of
             ((pending, err), w2) \<Rightarrow>
               if err \<noteq> None \<or> length pending = 0
               then Return (([], errors_Wrap err (''failed to read pending resource ''
                                                  @ decimal (length objects))), response, w2)
               else
                 (case notifyAll rt s resource pending response w2 of
                    (Some e, response1, w3) \<Rightarrow>
                      Return (([], Some (Wrap e ''failed to notify all'')), response1, w3)
                  | (None, response1, w3) \<Rightarrow>
                      (case AddProcessed (metaService s) pending w3 of
                         (err1, w4) \<Rightarrow>
                           Return ((pending, errors_Wrap err1 ''failed to update processed''),
                                   response1, w4)))))"

text \<open>
  \<^verbatim>\<open>UpdateSecrets\<close> hands the secret facade the source and the destination of every
  rule, by value.
\<close>

definition UpdateSecrets :: "('w, 'm) service \<Rightarrow> 'w \<Rightarrow> error option \<times> 'w" where
  "UpdateSecrets s w =
     (case secret s of
        None \<Rightarrow> (None, w)
      | Some sec \<Rightarrow>
          secret_Init sec (fs s)
            (concat (map (\<lambda>rule. [Source rule, Dest rule])
                         (Rules (Config_Resources (config s))))) w)"

definition Matched_Add :: "Matched \<Rightarrow> Object list \<Rightarrow> Matched" where
  \<comment> \<open>Modelled from the spec: \<^verbatim>\<open>Matched.Add\<close> is missing; a matched entry is
      \<^verbatim>\<open>{rule, urls: [...]}\<close>, the URLs of the objects added.\<close>
  "Matched_Add m objects = m\<lparr>URLs := URLs m @ map URL objects\<rparr>"

text \<open>The loop \<^verbatim>\<open>for _, resource := range s.config.Resources.Rules\<close> of \<^verbatim>\<open>tick\<close>.\<close>

fun tickEach ::
  "nat \<Rightarrow> ('w, Rule, 'm) runtime \<Rightarrow> ('w, 'm) service \<Rightarrow> Rule list \<Rightarrow> cron_Response \<Rightarrow> 'w
     \<Rightarrow> (error option \<times> cron_Response \<times> 'w) outcome" where
  "tickEach fuel rt s [] response w = Return (None, response, w)"
| "tickEach fuel rt s (resource # rest) response w =
     (case processResource fuel rt s resource response w of
        OutOfFuel \<Rightarrow> OutOfFuel
      | Panic \<Rightarrow> Panic
      | Return ((processed, Some e), response1, w1) \<Rightarrow> Return (Some e, response1, w1)
      | Return ((processed, None), response1, w1) \<Rightarrow>
          (if length processed > 0
           then tickEach fuel rt s rest
                  (response1\<lparr>Response_Matched := Response_Matched response1
                      @ [Matched_Add \<lparr>Matched_Resource = resource, URLs = []\<rparr> processed]\<rparr>) w1
           else tickEach fuel rt s rest response1 w1))"

definition tick ::
  "nat \<Rightarrow> ('w, Rule, 'm) deps \<Rightarrow> ('w, Rule, 'm) runtime \<Rightarrow> ('w, 'm) service \<Rightarrow> cron_Response \<Rightarrow> 'w
     \<Rightarrow> (error option \<times> ('w, 'm) service \<times> cron_Response \<times> 'w) outcome" where
  "tick fuel d rt s response w =
     (case ReloadIfNeeded d (fs s) (Config_Resources (config s)) w of
        ((changed, err), resources1, w1) \<Rightarrow>
          (let s1 = s\<lparr>config := (config s)\<lparr>Config_Resources := resources1\<rparr>\<rparr> in
           case (if changed \<and> err = None then UpdateSecrets s1 w1 else (err, w1)) of
             (Some e, w2) \<Rightarrow> Return (Some e, s1, response, w2)
           | (None, w2) \<Rightarrow>
               (case tickEach fuel rt s1 (Rules (Config_Resources (config s1))) response w2 of
                  OutOfFuel \<Rightarrow> OutOfFuel
                | Panic \<Rightarrow> Panic
                | Return (err1, response1, w3) \<Rightarrow> Return (err1, s1, response1, w3))))"

definition Tick ::
  "nat \<Rightarrow> ('w, Rule, 'm) deps \<Rightarrow> ('w, Rule, 'm) runtime \<Rightarrow> ('w, 'm) service \<Rightarrow> 'w
     \<Rightarrow> (cron_Response \<times> ('w, 'm) service \<times> 'w) outcome" where
  "Tick fuel d rt s w =
     (case tick fuel d rt s NewResponse w of
        OutOfFuel \<Rightarrow> OutOfFuel
      | Panic \<Rightarrow> Panic
      | Return (Some e, s1, response, w1) \<Rightarrow>
          Return (response\<lparr>Status := StatusError, Error := error_Error e\<rparr>, s1, w1)
      | Return (None, s1, response, w1) \<Rightarrow> Return (response, s1, w1))"

section \<open>The cron service with triggers\<close>

record ('w, 'm) trigger_service = "('w, trigger_Rule, 'm) cron_service" +
  dest :: "'w trigger_Service option"

definition s3_Scheme :: string where
  \<comment> \<open>Modelled from the spec: the constant \<^verbatim>\<open>s3.Scheme\<close> is missing; it is the scheme of
      \<^verbatim>\<open>s3://\<close> URLs.\<close>
  "s3_Scheme = ''s3''"

definition mem_Scheme :: string where
  \<comment> \<open>Modelled from the spec: the constant \<^verbatim>\<open>mem.Scheme\<close> is missing; it is the scheme of
      the in-memory \<^verbatim>\<open>mem://\<close> URLs.\<close>
  "mem_Scheme = ''mem''"

fun appendResources_trigger ::
  "nat \<Rightarrow> ('w, 'm) trigger_service \<Rightarrow> string \<Rightarrow> Object list \<Rightarrow> storage_Option list \<Rightarrow> 'w
     \<Rightarrow> (error option \<times> Object list \<times> 'w) outcome"
and appendEach_trigger ::
  "nat \<Rightarrow> ('w, 'm) trigger_service \<Rightarrow> nat \<Rightarrow> Object list \<Rightarrow> Object list
     \<Rightarrow> storage_Option list \<Rightarrow> 'w \<Rightarrow> (error option \<times> Object list \<times> 'w) outcome" where
  "appendResources_trigger 0 s url result options w = OutOfFuel"
| "appendResources_trigger (Suc fuel) s url result options w =
     (case fs_List (fs s) url options w of
        ((objects, Some e), w1) \<Rightarrow> Return (Some e, result, w1)
      | ((objects, None), w1) \<Rightarrow> appendEach_trigger fuel s 0 objects result options w1)"
| "appendEach_trigger fuel s i [] result options w = Return (None, result, w)"
| "appendEach_trigger fuel s i (object # rest) result options w =
     (if i = 0 \<and> IsDir object then appendEach_trigger fuel s (Suc i) rest result options w
      else if IsDir object then
        (case appendResources_trigger fuel s (URL object) result options w of
           OutOfFuel \<Rightarrow> OutOfFuel
         | Panic \<Rightarrow> Panic
         | Return (Some e, result1, w1) \<Rightarrow> Return (Some e, result1, w1)
         | Return (None, result1, w1) \<Rightarrow>
             appendEach_trigger fuel s (Suc i) rest result1 options w1)
      else appendEach_trigger fuel s (Suc i) rest (result @ [object]) options w)"

text \<open>
  This variant declares \<^verbatim>\<open>addLastModifiedTimeMatcher\<close> as the other does, and
  \<^verbatim>\<open>getResourceCandidates\<close> passes the options of the secret facade on as they are.
\<close>

definition getResourceCandidates_trigger ::
  "nat \<Rightarrow> ('w, 'm) trigger_service \<Rightarrow> trigger_Rule \<Rightarrow> 'w
     \<Rightarrow> ((Object list \<times> error option) \<times> 'w) outcome" where
  "getResourceCandidates_trigger fuel s resource w =
     (case secret s of
        None \<Rightarrow> Panic
      | Some sec \<Rightarrow>
          (case StorageOpts sec (Rule_Resource resource) w of
             ((options, Some e), w1) \<Rightarrow> Return (([], Some e), w1)
           | ((options, None), w1) \<Rightarrow>
               (case appendResources_trigger fuel s (Resource_URL (Rule_Resource resource)) []
                       options w1 of
                  OutOfFuel \<Rightarrow> OutOfFuel
                | Panic \<Rightarrow> Panic
                | Return (err, result, w2) \<Rightarrow> Return ((result, err), w2))))"

definition notify_trigger ::
  "('w, 'm) trigger_service \<Rightarrow> trigger_Rule \<Rightarrow> Object \<Rightarrow> 'w \<Rightarrow> (error option \<times> 'w) outcome" where
  "notify_trigger s resource object w =
     (case dest s of
        None \<Rightarrow> Panic
      | Some t \<Rightarrow> Return (Trigger t resource object w))"

fun notifyEach_trigger ::
  "('w, 'm) trigger_service \<Rightarrow> trigger_Rule \<Rightarrow> Object list \<Rightarrow> 'w
     \<Rightarrow> (error option list \<times> 'w) outcome" where
  "notifyEach_trigger s resource [] w = Return ([], w)"
| "notifyEach_trigger s resource (object # rest) w =
     (case notify_trigger s resource object w of
        OutOfFuel \<Rightarrow> OutOfFuel
      | Panic \<Rightarrow> Panic
      | Return (err, w1) \<Rightarrow>
          (case notifyEach_trigger s resource rest w1 of
             OutOfFuel \<Rightarrow> OutOfFuel
           | Panic \<Rightarrow> Panic
           | Return (errs, w2) \<Rightarrow> Return (err # errs, w2)))"

text \<open>
  \<^verbatim>\<open>notifyAll\<close> of this variant starts one goroutine for each object and returns at the
  first error read from the channel. Every goroutine runs to its end; the notifications
  still in flight at that return are counted into the world it returns.
\<close>

definition notifyAll_trigger ::
  "('w, trigger_Rule, 'm) runtime \<Rightarrow> ('w, 'm) trigger_service \<Rightarrow> trigger_Rule \<Rightarrow> Object list
     \<Rightarrow> 'w \<Rightarrow> (error option \<times> 'w) outcome" where
  "notifyAll_trigger rt s resource objects w =
     (if length objects = 0 then Return (None, w)
      else (case notifyEach_trigger s resource (schedule rt objects) w of
              OutOfFuel \<Rightarrow> OutOfFuel
            | Panic \<Rightarrow> Panic
            | Return (errs, w1) \<Rightarrow> Return (first_error errs, w1)))"

definition processResource_trigger ::
  "nat \<Rightarrow> ('w, trigger_Rule, 'm) runtime \<Rightarrow> ('w, 'm) trigger_service \<Rightarrow> trigger_Rule \<Rightarrow> 'w
     \<Rightarrow> ((Object list \<times> error option) \<times> 'w) outcome" where
  "processResource_trigger fuel rt s resource w =
     (case getResourceCandidates_trigger fuel s resource w of
        OutOfFuel \<Rightarrow> OutOfFuel
      | Panic \<Rightarrow> Panic
      | Return ((objects, Some e), w1) \<Rightarrow> Return (([], Some e), w1)
      | Return ((objects, None), w1) \<Rightarrow>
          (case PendingResources (metaService s) objects w1 of
             ((pending, err), w2) \<Rightarrow>
               if err \<noteq> None \<or> length pending = 0 then Return (([], err), w2)
               else
                 (case notifyAll_trigger rt s resource pending w2 of
                    OutOfFuel \<Rightarrow> OutOfFuel
                  | Panic \<Rightarrow> Panic
                  | Return (Some e, w3) \<Rightarrow> Return (([], Some e), w3)
                  | Return (None, w3) \<Rightarrow>
                      (case AddProcessed (metaService s) pending w3 of
                         (err1, w4) \<Rightarrow> Return ((pending, err1), w4)))))"

definition UpdateSecrets_trigger :: "('w, 'm) trigger_service \<Rightarrow> 'w \<Rightarrow> error option \<times> 'w" where
  "UpdateSecrets_trigger s w =
     (case secret s of
        None \<Rightarrow> (None, w)
      | Some sec \<Rightarrow>
          secret_Init sec (fs s)
            (map Rule_Resource (Rules (Config_Resources (config s)))) w)"

text \<open>
  \<^verbatim>\<open>Init\<close> of this variant: the scheme is inferred, then the \<^verbatim>\<open>switch\<close> picks the trigger,
  then the configuration and the secrets are initialised.
\<close>

definition Init ::
  "('w, trigger_Rule, 'm) runtime \<Rightarrow> ('w, 'm) trigger_service \<Rightarrow> 'w afs \<Rightarrow> 'w
     \<Rightarrow> error option \<times> ('w, 'm) trigger_service \<times> 'w" where
  "Init rt s storage w =
     (let s1 = (if SourceScheme (config s) = []
                then s\<lparr>config := (config s)\<lparr>SourceScheme := url_Scheme rt (MetaURL (config s)) []\<rparr>\<rparr>
                else s)
      in case (if SourceScheme (config s1) = s3_Scheme then
                 (case lambda_New rt w of ((t, err), w1) \<Rightarrow> (err, s1\<lparr>dest := t\<rparr>, w1))
               else if SourceScheme (config s1) = mem_Scheme then
                 (None, s1\<lparr>dest := Some (mem_New rt storage)\<rparr>, w)
               else
                 (Some (Err (''unsupported source scheme: '' @ SourceScheme (config s1))), s1, w)) of
           (Some e, s2, w1) \<Rightarrow> (Some e, s2, w1)
         | (None, s2, w1) \<Rightarrow>
             (case Config_Init rt (config s2) storage w1 of
                ((Some e, config1), w2) \<Rightarrow> (Some e, s2\<lparr>config := config1\<rparr>, w2)
              | ((None, config1), w2) \<Rightarrow>
                  (case UpdateSecrets_trigger (s2\<lparr>config := config1\<rparr>) w2 of
                     (err, w3) \<Rightarrow> (err, s2\<lparr>config := config1\<rparr>, w3))))"

section \<open>Example stores and services\<close>

text \<open>
  Small concrete collaborators on which the theorems below are run: a rule directory with
  one rule file, a source tree with a nested directory, a ledger kept as a journal of
  strings, and a proxy that fails on one object.
\<close>

definition ex_storage :: "nat afs" where
  "ex_storage =
     \<lparr>fs_Exists = (\<lambda>u w. ((u = ''mem://rules'', None), Suc w)),
      fs_List = (\<lambda>u options w.
         (([\<lparr>URL = ''mem://rules/a.json'', IsDir = False, ModTime = 10\<rparr>], None), Suc w)),
      fs_Download = (\<lambda>object w. ((''{'', None), Suc w))\<rparr>"

definition ex_deps :: "(nat, string, nat) deps" where
  "ex_deps =
     \<lparr>json_Decode = (\<lambda>content. if content = ''{'' then ([], Some (Err ''unexpected EOF''))
                                else ([''loaded''], None)),
      Rule_Init = (\<lambda>pid rule. rule),
      NewMeta = (\<lambda>u interval. 0),
      HasChanged = (\<lambda>m storage w. ((m = 0, None), Suc m, w))\<rparr>"

definition ex_rules :: "(string, nat) Resources" where
  "ex_rules =
     \<lparr>BaseURL = ''mem://rules'', CheckInMs = 1000, Rules = [''seed'', ''loaded''],
      initialRules = [''seed''], inited = 1, projectID = ''p'', meta = 0\<rparr>"

definition ex_mirror :: "(nat, string, unit, unit) mirror_deps" where
  "ex_mirror =
     \<lparr>Event_URL = (\<lambda>event. event),
      NewFromEnv = (\<lambda>key w. (((), if key = ''CONFIG'' then None else Some (Err ''no config'')), w)),
      Mirror = (\<lambda>service request w.
         (\<lparr>Status = ''ok'', Error = (if Request_URL request = ''gs://b/bad'' then ''boom'' else [])\<rparr>,
          Suc w)),
      Sprintf = (\<lambda>format. format)\<rparr>"

definition ex_storage_ok :: "nat afs" where
  "ex_storage_ok = ex_storage\<lparr>fs_Download := (\<lambda>object w. ((''[]'', None), Suc w))\<rparr>"

definition ex_tree :: "string \<Rightarrow> Object list" where
  "ex_tree u =
     (if u = ''mem://src'' then
        [\<lparr>URL = ''mem://src'', IsDir = True, ModTime = 0\<rparr>,
         \<lparr>URL = ''mem://src/new.txt'', IsDir = False, ModTime = 950\<rparr>,
         \<lparr>URL = ''mem://src/old.txt'', IsDir = False, ModTime = 10\<rparr>,
         \<lparr>URL = ''mem://src/sub'', IsDir = True, ModTime = 0\<rparr>]
      else if u = ''mem://src/sub'' then
        [\<lparr>URL = ''mem://src/sub'', IsDir = True, ModTime = 0\<rparr>,
         \<lparr>URL = ''mem://src/sub/a.log'', IsDir = False, ModTime = 990\<rparr>]
      else [])"

definition ex_accepts :: "storage_Option \<Rightarrow> Object \<Rightarrow> bool" where
  "ex_accepts opt object =
     (case opt of
        Modification before after \<Rightarrow>
          IsDir object \<or>
          ((case before of None \<Rightarrow> True | Some t \<Rightarrow> ModTime object < t) \<and>
           (case after of None \<Rightarrow> True | Some t \<Rightarrow> t \<le> ModTime object))
      | Basic p sfx f \<Rightarrow> True
      | Credentials c \<Rightarrow> True)"

definition ex_cron_storage :: "string list afs" where
  "ex_cron_storage =
     \<lparr>fs_Exists = (\<lambda>u w. ((True, None), w)),
      fs_List = (\<lambda>u options w.
         ((filter (\<lambda>object. list_all (\<lambda>opt. ex_accepts opt object) options) (ex_tree u), None), w)),
      fs_Download = (\<lambda>object w. ((''[]'', None), w))\<rparr>"

definition ex_secret :: "string list secret_Service" where
  "ex_secret =
     \<lparr>StorageOpts = (\<lambda>resource w. (([Credentials (Resource_Credentials resource)], None), w)),
      secret_Init = (\<lambda>storage resources w. (None, w))\<rparr>"

definition ex_ledger :: "string list meta_Service" where
  "ex_ledger =
     \<lparr>PendingResources = (\<lambda>objects w.
         ((filter (\<lambda>object. (''done:'' @ URL object) \<notin> set w) objects, None), w)),
      AddProcessed = (\<lambda>objects w. (None, w @ map (\<lambda>object. ''done:'' @ URL object) objects))\<rparr>"

definition ex_runtime :: "(string list, 'r, nat) runtime" where
  "ex_runtime =
     \<lparr>Now = (\<lambda>w. 1000),
      url_Base = (\<lambda>u scheme. (take 6 u, drop 6 u)),
      url_Scheme = (\<lambda>u dflt. if CHR '':'' \<in> set u then takeWhile (\<lambda>c. c \<noteq> CHR '':'') u else dflt),
      Basic_Match = (\<lambda>basic parent object.
         drop (length (URL object) - length (Suffix basic)) (URL object) = Suffix basic),
      schedule = rev,
      lambda_New = (\<lambda>w. ((None, Some (Err ''no aws session'')), w)),
      mem_New = (\<lambda>storage. \<lparr>Trigger = (\<lambda>rule object w. (None, w @ [''trigger:'' @ URL object]))\<rparr>),
      Config_Init = (\<lambda>c storage w. ((None, c), w))\<rparr>"

definition ex_resource :: "string \<Rightarrow> string \<Rightarrow> Resource" where
  "ex_resource u sfx =
     \<lparr>Resource_URL = u, Resource_Basic = \<lparr>Prefix = [], Suffix = sfx, Filter = []\<rparr>,
      Resource_Credentials = ''key''\<rparr>"

definition ex_rule :: "string \<Rightarrow> Rule" where
  "ex_rule sfx = \<lparr>Source = ex_resource ''mem://src'' sfx, Dest = ex_resource ''mem://dst'' [],
                  Move = False\<rparr>"

definition ex_proxy :: "string list proxy_Service" where
  "ex_proxy =
     \<lparr>Proxy = (\<lambda>request w.
         (\<lparr>Status = ''ok'',
           Error = (if Resource_URL (Request_Source request) = ''mem://src/sub/a.log''
                    then ''boom'' else []),
           Moved = Map.empty, Copied = Map.empty, Invoked = Map.empty\<rparr>,
          w @ [''proxy:'' @ Resource_URL (Request_Source request)]))\<rparr>"

definition ex_service :: "(string list, nat) service" where
  "ex_service =
     \<lparr>config = \<lparr>Config_Resources =
                  \<lparr>BaseURL = [], CheckInMs = 1000,
                   Rules = [ex_rule ''new.txt'', ex_rule ''.log'', ex_rule ''.txt''],
                   initialRules = [], inited = 1, projectID = ''p'', meta = 1\<rparr>,
                SourceScheme = ''mem'', MetaURL = ''mem://meta'', TimeWindow = 100\<rparr>,
      fs = ex_cron_storage, secret = Some ex_secret, metaService = ex_ledger,
      proxy = ex_proxy\<rparr>"

definition ex_trigger_service :: "(string list, nat) trigger_service" where
  "ex_trigger_service =
     \<lparr>config = \<lparr>Config_Resources =
                  \<lparr>BaseURL = [], CheckInMs = 1000,
                   Rules = [\<lparr>Rule_Resource = ex_resource ''mem://src'' []\<rparr>],
                   initialRules = [], inited = 1, projectID = ''p'', meta = 1\<rparr>,
                SourceScheme = [], MetaURL = ''mem://meta'', TimeWindow = 100\<rparr>,
      fs = ex_cron_storage, secret = Some ex_secret, metaService = ex_ledger,
      dest = None\<rparr>"

definition ex_trigger :: "string list trigger_Service" where
  "ex_trigger =
     \<lparr>Trigger = (\<lambda>rule object w.
         (if URL object = ''mem://src/old.txt'' then Some (Err ''boom'') else None,
          w @ [''trigger:'' @ URL object]))\<rparr>"

definition ex_trigger_rule :: "string \<Rightarrow> trigger_Rule" where
  "ex_trigger_rule u = \<lparr>Rule_Resource = ex_resource u []\<rparr>"

definition ex_cron_deps :: "(string list, Rule, nat) deps" where
  "ex_cron_deps =
     \<lparr>json_Decode = (\<lambda>content. ([], None)),
      Rule_Init = (\<lambda>pid rule. rule),
      NewMeta = (\<lambda>u interval. 0),
      HasChanged = (\<lambda>m storage w.
         ((m = 0, if m = 7 then Some (Err ''meta unreadable'') else None), Suc m, w))\<rparr>"

section \<open>Properties of the rule set\<close>

lemma loadResources_extends:
  "loadResources d storage object r w = (err, r1, w1) \<Longrightarrow> \<exists>loaded. r1 = r\<lparr>Rules := Rules r @ loaded\<rparr>"
  by (auto simp: loadResources_def split: prod.splits option.splits intro: exI[of _ "[]"])

lemma loadEach_extends:
  "loadEach d storage objects r w = (err, r1, w1) \<Longrightarrow> \<exists>loaded. r1 = r\<lparr>Rules := Rules r @ loaded\<rparr>"
proof (induction objects arbitrary: r w)
  case Nil
  then show ?case by (auto intro: exI[of _ "[]"])
next
  case (Cons object rest)
  show ?case
  proof (cases "IsDir object")
    case True
    with Cons show ?thesis by simp
  next
    case False
    obtain e r2 w2 where lr: "loadResources d storage object r w = (e, r2, w2)"
      by (cases "loadResources d storage object r w") auto
    from loadResources_extends[OF lr] obtain l1 where r2: "r2 = r\<lparr>Rules := Rules r @ l1\<rparr>"
      by blast
    show ?thesis
    proof (cases e)
      case None
      with Cons.prems False lr have "loadEach d storage rest r2 w2 = (err, r1, w1)" by simp
      from Cons.IH[OF this] obtain l2 where "r1 = r2\<lparr>Rules := Rules r2 @ l2\<rparr>" by blast
      with r2 have "r1 = r\<lparr>Rules := Rules r @ (l1 @ l2)\<rparr>" by simp
      then show ?thesis by blast
    next
      case (Some a)
      with Cons.prems False lr have "r1 = r2" by simp
      with r2 show ?thesis by blast
    qed
  qed
qed

lemma loadEach_append:
  "loadEach d storage pre r w = (None, r1, w1)
     \<Longrightarrow> loadEach d storage (pre @ post) r w = loadEach d storage post r1 w1"
  by (induction pre arbitrary: r w) (auto split: prod.splits option.splits)

lemma loadAllResources_from_seed:
  assumes "BaseURL r \<noteq> []" and "loadAllResources d storage r w = (err, r1, w1)"
  shows "\<exists>loaded. r1 = r\<lparr>Rules := initialRules r @ loaded\<rparr>"
proof -
  let ?r0 = "r\<lparr>Rules := initialRules r\<rparr>"
  have "r1 = ?r0 \<or> (\<exists>objects w2. loadEach d storage objects ?r0 w2 = (err, r1, w1))"
    using assms
    by (auto simp: loadAllResources_def Let_def split: prod.splits option.splits if_splits)
  then show ?thesis
  proof
    assume "r1 = ?r0"
    then have "r1 = r\<lparr>Rules := initialRules r @ []\<rparr>" by simp
    then show ?thesis by blast
  next
    assume "\<exists>objects w2. loadEach d storage objects ?r0 w2 = (err, r1, w1)"
    then obtain objects w2 where "loadEach d storage objects ?r0 w2 = (err, r1, w1)" by blast
    from loadEach_extends[OF this] obtain loaded where "r1 = ?r0\<lparr>Rules := Rules ?r0 @ loaded\<rparr>"
      by blast
    then have "r1 = r\<lparr>Rules := initialRules r @ loaded\<rparr>" by simp
    then show ?thesis by blast
  qed
qed

text \<open>
  C1, as the specification states it: when a rule file fails to decode during a reload,
  the previous snapshot stays in place. The code does not keep it. On the example store
  the snapshot before the reload is the seed rule and a loaded rule; the one rule file no
  longer decodes; the reload returns the wrapped decode error and leaves the seed alone.
\<close>

theorem failed_reload_replaces_snapshot:
  "snd (fst (ReloadIfNeeded ex_deps ex_storage ex_rules 0))
     = Some (Wrap (Err ''unexpected EOF'') ''failed to decode: mem://rules/a.json'')
   \<and> Rules ex_rules = [''seed'', ''loaded'']
   \<and> Rules (fst (snd (ReloadIfNeeded ex_deps ex_storage ex_rules 0))) = [''seed'']
   \<and> Rules (fst (snd (ReloadIfNeeded ex_deps ex_storage ex_rules 0))) \<noteq> Rules ex_rules"
  by (simp add: ReloadIfNeeded_def loadAndInit_def loadAllResources_def loadResources_def
        ex_deps_def ex_storage_def ex_rules_def)

text \<open>
  C1, amended: when a rule file fails to decode during a reload, the reload stops at that
  file and returns the decode error wrapped with \<^verbatim>\<open>failed to decode: <url>\<close>; the rule set
  is left as the seed \<open>initialRules\<close> followed by the rules of the files loaded before the
  failing one, with no rule initialised again.
\<close>

theorem decode_error_keeps_partial_load:
  assumes "BaseURL r \<noteq> []"
    and "fs_Exists storage (BaseURL r) w = ((True, None), w1)"
    and "fs_List storage (BaseURL r) [Basic [] ''.json'' []] w1 = ((pre @ object # post, None), w2)"
    and "loadEach d storage pre (r\<lparr>Rules := initialRules r\<rparr>) w2 = (None, r1, w3)"
    and "\<not> IsDir object"
    and "fs_Download storage object w3 = ((reader, None), w4)"
    and "json_Decode d reader = (resources, Some e)"
  shows "loadAndInit d storage r w = (Some (Wrap e (''failed to decode: '' @ URL object)), r1, w4)
       \<and> (\<exists>loaded. r1 = r\<lparr>Rules := initialRules r @ loaded\<rparr>)"
proof -
  let ?err = "Some (Wrap e (''failed to decode: '' @ URL object))"
  have lr: "loadResources d storage object r1 w3 = (?err, r1, w4)"
    using assms(6,7) by (simp add: loadResources_def)
  have "loadEach d storage (pre @ object # post) (r\<lparr>Rules := initialRules r\<rparr>) w2 = (?err, r1, w4)"
    using loadEach_append[OF assms(4)] assms(5) lr by simp
  then have la: "loadAllResources d storage r w = (?err, r1, w4)"
    using assms(1,2,3) by (simp add: loadAllResources_def)
  then have "loadAndInit d storage r w = (?err, r1, w4)"
    by (simp add: loadAndInit_def)
  moreover from loadAllResources_from_seed[OF assms(1) la]
  have "\<exists>loaded. r1 = r\<lparr>Rules := initialRules r @ loaded\<rparr>" .
  ultimately show ?thesis by blast
qed

theorem decode_error_keeps_partial_load_witness:
  "loadAndInit ex_deps ex_storage ex_rules 0
     = (Some (Wrap (Err ''unexpected EOF'') ''failed to decode: mem://rules/a.json''),
        ex_rules\<lparr>Rules := [''seed'']\<rparr>, 3)"
proof -
  let ?object = "\<lparr>URL = ''mem://rules/a.json'', IsDir = False, ModTime = 10\<rparr>"
  have "loadAndInit ex_deps ex_storage ex_rules 0
          = (Some (Wrap (Err ''unexpected EOF'') (''failed to decode: '' @ URL ?object)),
             ex_rules\<lparr>Rules := initialRules ex_rules\<rparr>, 3)
        \<and> (\<exists>loaded. ex_rules\<lparr>Rules := initialRules ex_rules\<rparr>
                       = ex_rules\<lparr>Rules := initialRules ex_rules @ loaded\<rparr>)"
    by (rule decode_error_keeps_partial_load
             [where pre = "[]" and post = "[]" and ?w1.0 = 1 and ?w2.0 = 2 and ?w3.0 = 2
                and reader = "''{''" and resources = "[]"])
       (simp_all add: ex_deps_def ex_storage_def ex_rules_def)
  then show ?thesis by (simp add: ex_rules_def)
qed

text \<open>
  C6: \<^verbatim>\<open>ReloadIfNeeded\<close> reloads exactly when the watcher reports a change without an
  error. Otherwise it hands back the watcher's answer and leaves the rule set as it is, the
  watcher's own state apart; on a change it returns what \<^verbatim>\<open>loadAndInit\<close> returns, and after
  a successful load from a rule directory the rules are the seed followed by the loaded
  rules, each initialised with the project id.
\<close>

theorem ReloadIfNeeded_iff_changed:
  assumes "HasChanged d (meta r) storage w = ((changed, err), m1, w1)"
  shows "(err \<noteq> None \<or> \<not> changed \<longrightarrow>
            ReloadIfNeeded d storage r w = ((changed, err), r\<lparr>meta := m1\<rparr>, w1))
       \<and> (err = None \<and> changed \<longrightarrow>
            (\<exists>err1 r1 w2. loadAndInit d storage (r\<lparr>meta := m1\<rparr>) w1 = (err1, r1, w2)
               \<and> ReloadIfNeeded d storage r w = ((True, err1), r1, w2)
               \<and> (err1 = None \<and> BaseURL r \<noteq> [] \<longrightarrow>
                    (\<exists>loaded. Rules r1 = map (Rule_Init d (projectID r)) (initialRules r @ loaded)))))"
proof (intro conjI impI)
  assume "err \<noteq> None \<or> \<not> changed"
  with assms show "ReloadIfNeeded d storage r w = ((changed, err), r\<lparr>meta := m1\<rparr>, w1)"
    by (auto simp: ReloadIfNeeded_def)
next
  assume c: "err = None \<and> changed"
  obtain err1 r1 w2 where l: "loadAndInit d storage (r\<lparr>meta := m1\<rparr>) w1 = (err1, r1, w2)"
    by (cases "loadAndInit d storage (r\<lparr>meta := m1\<rparr>) w1") auto
  have R: "ReloadIfNeeded d storage r w = ((True, err1), r1, w2)"
    using assms c l by (simp add: ReloadIfNeeded_def)
  have "\<exists>loaded. Rules r1 = map (Rule_Init d (projectID r)) (initialRules r @ loaded)"
    if "err1 = None" and b: "BaseURL r \<noteq> []"
  proof -
    obtain e0 r0 w0 where la: "loadAllResources d storage (r\<lparr>meta := m1\<rparr>) w1 = (e0, r0, w0)"
      by (cases "loadAllResources d storage (r\<lparr>meta := m1\<rparr>) w1") auto
    from b have "BaseURL (r\<lparr>meta := m1\<rparr>) \<noteq> []" by simp
    from loadAllResources_from_seed[OF this la] obtain loaded
      where r0: "r0 = r\<lparr>meta := m1, Rules := initialRules r @ loaded\<rparr>" by auto
    from l la that(1) have "r1 = r0\<lparr>Rules := map (Rule_Init d (projectID r0)) (Rules r0)\<rparr>"
      by (auto simp: loadAndInit_def split: option.splits)
    with r0 show ?thesis by auto
  qed
  with l R show "\<exists>err1 r1 w2. loadAndInit d storage (r\<lparr>meta := m1\<rparr>) w1 = (err1, r1, w2)
               \<and> ReloadIfNeeded d storage r w = ((True, err1), r1, w2)
               \<and> (err1 = None \<and> BaseURL r \<noteq> [] \<longrightarrow>
                    (\<exists>loaded. Rules r1 = map (Rule_Init d (projectID r)) (initialRules r @ loaded)))"
    by blast
qed

theorem ReloadIfNeeded_iff_changed_witness:
  "ReloadIfNeeded ex_deps ex_storage (ex_rules\<lparr>meta := 1\<rparr>) 5
     = ((False, None), ex_rules\<lparr>meta := 2\<rparr>, 5)
   \<and> ReloadIfNeeded ex_deps ex_storage_ok ex_rules 0
     = ((True, None), ex_rules\<lparr>meta := 1, Rules := [''seed'', ''loaded'']\<rparr>, 3)"
  using ReloadIfNeeded_iff_changed
          [of ex_deps "ex_rules\<lparr>meta := 1\<rparr>" ex_storage 5 False None 2 5]
        ReloadIfNeeded_iff_changed [of ex_deps ex_rules ex_storage_ok 0 True None 1 0]
  by (simp add: loadAndInit_def loadAllResources_def loadResources_def
        ex_deps_def ex_storage_def ex_storage_ok_def ex_rules_def)

text \<open>
  C10: with a non-empty \<^verbatim>\<open>BaseURL\<close> that the store reports as absent (and no error),
  \<^verbatim>\<open>loadAllResources\<close> sets the rules to the seed \<open>initialRules\<close> and returns \<^verbatim>\<open>nil\<close>.
\<close>

theorem missing_base_resets_to_seed:
  assumes "BaseURL r \<noteq> []" and "fs_Exists storage (BaseURL r) w = ((False, None), w1)"
  shows "loadAllResources d storage r w = (None, r\<lparr>Rules := initialRules r\<rparr>, w1)"
  using assms by (simp add: loadAllResources_def)

theorem missing_base_resets_to_seed_witness:
  "loadAllResources ex_deps ex_storage (ex_rules\<lparr>BaseURL := ''mem://gone''\<rparr>) 0
     = (None, ex_rules\<lparr>BaseURL := ''mem://gone'', Rules := [''seed'']\<rparr>, 1)"
  using missing_base_resets_to_seed
          [of "ex_rules\<lparr>BaseURL := ''mem://gone''\<rparr>" ex_storage 0 1 ex_deps]
  by (simp add: ex_storage_def ex_rules_def)

section \<open>Properties of the event entry point\<close>

text \<open>
  C9: \<^verbatim>\<open>Fn\<close> returns \<^verbatim>\<open>nil\<close> exactly when the service was built and the response of
  \<^verbatim>\<open>Mirror\<close> has an empty \<^verbatim>\<open>Error\<close>; otherwise it returns the cause wrapped with
  \<^verbatim>\<open>failed to mirror <url>\<close>, whose message starts with that text.
\<close>

theorem Fn_nil_iff_mirrored:
  assumes "NewFromEnv md ConfigEnvKey w = ((service, nerr), w1)"
    and "Mirror md service (NewRequest (Event_URL md event)) w1 = (response, w2)"
  shows "(fst (Fn md event w) = None \<longleftrightarrow> nerr = None \<and> Error response = [])
       \<and> (nerr \<noteq> None \<or> Error response \<noteq> [] \<longrightarrow>
            (\<exists>cause. fst (Fn md event w) = Some (Wrap cause (''failed to mirror '' @ Event_URL md event))
               \<and> cause = (case nerr of Some e \<Rightarrow> e | None \<Rightarrow> Err (Sprintf md (Error response)))
               \<and> error_Error (Wrap cause (''failed to mirror '' @ Event_URL md event))
                   = ''failed to mirror '' @ Event_URL md event @ '': '' @ error_Error cause))"
  using assms by (cases nerr) (auto simp: Fn_def fn_def)

theorem Fn_nil_iff_mirrored_witness:
  "fst (Fn ex_mirror ''gs://b/ok'' 0) = None
   \<and> fst (Fn ex_mirror ''gs://b/bad'' 0)
       = Some (Wrap (Err ''boom'') ''failed to mirror gs://b/bad'')
   \<and> error_Error (Wrap (Err ''boom'') ''failed to mirror gs://b/bad'')
       = ''failed to mirror gs://b/bad: boom''"
  using Fn_nil_iff_mirrored [of ex_mirror 0 "()" None 0 "''gs://b/ok''"
          "\<lparr>Status = ''ok'', Error = []\<rparr>" 1]
        Fn_nil_iff_mirrored [of ex_mirror 0 "()" None 0 "''gs://b/bad''"
          "\<lparr>Status = ''ok'', Error = ''boom''\<rparr>" 1]
  by (simp add: ex_mirror_def ConfigEnvKey_def NewRequest_def)

section \<open>Properties of the listing\<close>

lemma appendEach_added:
  assumes rec: "\<And>url result w err result' w'.
      appendResources fuel rt s url result matcher options w = Return (err, result', w')
        \<Longrightarrow> \<exists>added. result' = result @ added \<and> (\<forall>object\<in>set added. P object)"
    and run: "appendEach fuel rt s i objects result matcher options w = Return (err, result', w')"
    and objs: "\<forall>object\<in>set objects. \<not> IsDir object \<longrightarrow> P object"
  shows "\<exists>added. result' = result @ added \<and> (\<forall>object\<in>set added. P object)"
  using run objs
proof (induction objects arbitrary: i result w)
  case Nil
  then show ?case by simp
next
  case (Cons object rest)
  from Cons.prems(2) have restP: "\<forall>object\<in>set rest. \<not> IsDir object \<longrightarrow> P object" by simp
  show ?case
  proof (cases "IsDir object")
    case dir: True
    show ?thesis
    proof (cases "i = 0")
      case True
      with dir Cons.prems(1)
      have "appendEach fuel rt s (Suc i) rest result matcher options w = Return (err, result', w')"
        by simp
      from Cons.IH[OF this restP] show ?thesis .
    next
      case False
      with dir Cons.prems(1) obtain e1 r1 w1
        where sub: "appendResources fuel rt s (URL object) result matcher options w = Return (e1, r1, w1)"
        by (cases "appendResources fuel rt s (URL object) result matcher options w") auto
      from rec[OF sub] obtain a1 where a1: "r1 = result @ a1" "\<forall>object\<in>set a1. P object" by blast
      show ?thesis
      proof (cases e1)
        case None
        with False dir Cons.prems(1) sub
        have "appendEach fuel rt s (Suc i) rest r1 matcher options w1 = Return (err, result', w')"
          by simp
        from Cons.IH[OF this restP] obtain a2
          where "result' = r1 @ a2" "\<forall>object\<in>set a2. P object" by blast
        with a1 have "result' = result @ (a1 @ a2) \<and> (\<forall>object\<in>set (a1 @ a2). P object)" by auto
        then show ?thesis by blast
      next
        case (Some e)
        with False dir Cons.prems(1) sub have "result' = r1" by simp
        with a1 show ?thesis by blast
      qed
    qed
  next
    case nodir: False
    with Cons.prems(2) have Pobj: "P object" by simp
    let ?m = "Basic_Match rt matcher (fst (path_Split (snd (url_Base rt (URL object) file_Scheme)))) object"
    show ?thesis
    proof (cases ?m)
      case True
      with nodir Cons.prems(1)
      have "appendEach fuel rt s (Suc i) rest (result @ [object]) matcher options w
              = Return (err, result', w')"
        by (simp add: Let_def)
      from Cons.IH[OF this restP] obtain a
        where "result' = (result @ [object]) @ a" "\<forall>object\<in>set a. P object" by blast
      with Pobj have "result' = result @ (object # a) \<and> (\<forall>object\<in>set (object # a). P object)"
        by simp
      then show ?thesis by blast
    next
      case False
      with nodir Cons.prems(1)
      have "appendEach fuel rt s (Suc i) rest result matcher options w = Return (err, result', w')"
        by (simp add: Let_def)
      from Cons.IH[OF this restP] show ?thesis .
    qed
  qed
qed

lemma appendResources_added:
  assumes listing: "\<And>url w0 objects e w1 object.
      fs_List (fs s) url options w0 = ((objects, e), w1) \<Longrightarrow> object \<in> set objects
        \<Longrightarrow> \<not> IsDir object \<Longrightarrow> P object"
  shows "appendResources fuel rt s url result matcher options w = Return (err, result', w')
           \<Longrightarrow> \<exists>added. result' = result @ added \<and> (\<forall>object\<in>set added. P object)"
proof (induction fuel arbitrary: url result w err result' w')
  case 0
  then show ?case by simp
next
  case (Suc fuel)
  obtain objects e w1 where l: "fs_List (fs s) url options w = ((objects, e), w1)"
    by (cases "fs_List (fs s) url options w") auto
  show ?case
  proof (cases e)
    case None
    with Suc.prems l
    have run: "appendEach fuel rt s 0 objects result matcher options w1 = Return (err, result', w')"
      by simp
    have "\<forall>object\<in>set objects. \<not> IsDir object \<longrightarrow> P object"
      using listing[OF l] by blast
    from appendEach_added[of fuel rt s matcher options P, OF Suc.IH run this] show ?thesis .
  next
    case (Some a)
    with Suc.prems l have "result' = result @ []" by simp
    then show ?thesis by (metis empty_iff list.set(1))
  qed
qed

lemma appendEach_extends:
  assumes "appendEach fuel rt s i objects result matcher options w = Return (err, result', w')"
  shows "set result \<subseteq> set result'"
proof -
  have "\<exists>added. result' = result @ added \<and> (\<forall>object\<in>set added. True)"
    by (rule appendEach_added[where P = "\<lambda>_. True", OF _ assms])
       (auto dest: appendResources_added[where P = "\<lambda>_. True", rotated])
  then show ?thesis by auto
qed

lemma appendEach_keeps_matching:
  assumes "appendEach fuel rt s i objects result matcher options w = Return (None, result', w')"
    and "object \<in> set objects" and "\<not> IsDir object"
    and "Basic_Match rt matcher (fst (path_Split (snd (url_Base rt (URL object) file_Scheme)))) object"
  shows "object \<in> set result'"
  using assms(1,2)
proof (induction objects arbitrary: i result w)
  case Nil
  then show ?case by simp
next
  case (Cons x rest)
  show ?case
  proof (cases "IsDir x")
    case dir: True
    with assms(3) Cons.prems(2) have inrest: "object \<in> set rest" by auto
    show ?thesis
    proof (cases "i = 0")
      case True
      with dir Cons.prems(1) Cons.IH[OF _ inrest] show ?thesis by simp
    next
      case False
      with dir Cons.prems(1) obtain e1 r1 w1
        where sub: "appendResources fuel rt s (URL x) result matcher options w = Return (e1, r1, w1)"
        by (cases "appendResources fuel rt s (URL x) result matcher options w") auto
      with False dir Cons.prems(1) have "e1 = None"
        by (cases e1) auto
      with False dir Cons.prems(1) sub Cons.IH[OF _ inrest] show ?thesis by simp
    qed
  next
    case nodir: False
    let ?m = "Basic_Match rt matcher (fst (path_Split (snd (url_Base rt (URL x) file_Scheme)))) x"
    show ?thesis
    proof (cases "object = x")
      case True
      with assms(4) nodir Cons.prems(1)
      have "appendEach fuel rt s (Suc i) rest (result @ [object]) matcher options w
              = Return (None, result', w')"
        by (simp add: Let_def)
      from appendEach_extends[OF this] show ?thesis by auto
    next
      case False
      with Cons.prems(2) have inrest: "object \<in> set rest" by simp
      from nodir Cons.prems(1) Cons.IH[OF _ inrest] show ?thesis
        by (cases ?m) (simp_all add: Let_def)
    qed
  qed
qed

lemma appendEach_trigger_unfiltered:
  assumes all: "\<And>parent object. Basic_Match rt matcher parent object"
    and rec: "\<And>url result w.
      appendResources_trigger fuel s url result options w
        = appendResources fuel rt s url result matcher options w"
  shows "appendEach_trigger fuel s i objects result options w
           = appendEach fuel rt s i objects result matcher options w"
proof (induction objects arbitrary: i result w)
  case Nil
  show ?case by simp
next
  case (Cons object rest)
  show ?case
    by (simp add: all rec Cons.IH Let_def split: outcome.splits prod.splits option.splits)
qed

lemma appendResources_trigger_unfiltered:
  assumes all: "\<And>parent object. Basic_Match rt matcher parent object"
  shows "appendResources_trigger fuel s url result options w
           = appendResources fuel rt s url result matcher options w"
proof (induction fuel arbitrary: url result w)
  case 0
  show ?case by simp
next
  case (Suc fuel)
  show ?case
    by (simp add: appendEach_trigger_unfiltered[of rt matcher, OF all Suc.IH]
             split: prod.splits option.splits)
qed

lemma appendEach_trigger_keeps_files:
  assumes "appendEach_trigger fuel s i objects result options w = Return (None, result', w')"
    and "object \<in> set objects" and "\<not> IsDir object"
  shows "object \<in> set result'"
proof -
  let ?rt = "\<lparr>Now = (\<lambda>w. 0), url_Base = (\<lambda>u scheme. ([], u)), url_Scheme = (\<lambda>u dflt. dflt),
             Basic_Match = (\<lambda>basic parent object. True), schedule = (\<lambda>objects. objects),
             lambda_New = (\<lambda>w. ((None, None), w)),
             mem_New = (\<lambda>storage. \<lparr>Trigger = (\<lambda>rule object w. (None, w))\<rparr>),
             Config_Init = (\<lambda>c storage w. ((None, c), w))\<rparr>"
  have all: "\<And>parent object. Basic_Match ?rt matcher parent object" by simp
  have "appendEach fuel ?rt s i objects result matcher options w = Return (None, result', w')"
    using assms(1)
      appendEach_trigger_unfiltered[of ?rt matcher fuel s options i objects result w, OF all
        appendResources_trigger_unfiltered[of ?rt matcher, OF all]]
    by simp
  from appendEach_keeps_matching[OF this assms(2,3)] show ?thesis by simp
qed

text \<open>
  C7, as the specification states it: every element that is not a directory is appended.
  In the service with the proxy the rule's basic matcher stands in between: the listing of
  the example directory holds a file ending in \<^verbatim>\<open>.log\<close>, the rule asks for \<^verbatim>\<open>.txt\<close>, and
  nothing is appended.
\<close>

theorem unmatched_file_not_appended:
  "fst (fs_List (fs ex_service) ''mem://src/sub'' [] [])
     = ([\<lparr>URL = ''mem://src/sub'', IsDir = True, ModTime = 0\<rparr>,
         \<lparr>URL = ''mem://src/sub/a.log'', IsDir = False, ModTime = 990\<rparr>], None)
   \<and> appendResources 1 ex_runtime ex_service ''mem://src/sub'' []
        \<lparr>Prefix = [], Suffix = ''.txt'', Filter = []\<rparr> [] []
     = Return (None, [], [])"
  by (simp add: ex_service_def ex_cron_storage_def ex_tree_def ex_runtime_def)

text \<open>
  C7, amended: in both variants a directory at index 0 is skipped without being listed, and
  a directory at a later index is listed by a recursive call, whose error ends the loop.
  An element that is not a directory is appended in the variant with triggers; in the
  variant with the proxy it is appended exactly when the rule's basic matcher accepts it
  with its parent path. When the loop ends without error, every such element of the
  listing is in the result.
\<close>

theorem appendEach_by_element:
  fixes s :: "('w, 'm) service" and st :: "('w, 'm) trigger_service"
  shows
  "(IsDir object \<longrightarrow>
      appendEach fuel rt s 0 (object # rest) result matcher options w
        = appendEach fuel rt s 1 rest result matcher options w
    \<and> appendEach_trigger fuel st 0 (object # rest) result options w
        = appendEach_trigger fuel st 1 rest result options w)
 \<and> (IsDir object \<and> 0 < i \<longrightarrow>
      appendEach fuel rt s i (object # rest) result matcher options w
        = (case appendResources fuel rt s (URL object) result matcher options w of
             OutOfFuel \<Rightarrow> OutOfFuel
           | Panic \<Rightarrow> Panic
           | Return (Some e, result1, w1) \<Rightarrow> Return (Some e, result1, w1)
           | Return (None, result1, w1) \<Rightarrow>
               appendEach fuel rt s (Suc i) rest result1 matcher options w1)
    \<and> appendEach_trigger fuel st i (object # rest) result options w
        = (case appendResources_trigger fuel st (URL object) result options w of
             OutOfFuel \<Rightarrow> OutOfFuel
           | Panic \<Rightarrow> Panic
           | Return (Some e, result1, w1) \<Rightarrow> Return (Some e, result1, w1)
           | Return (None, result1, w1) \<Rightarrow>
               appendEach_trigger fuel st (Suc i) rest result1 options w1))
 \<and> (\<not> IsDir object \<longrightarrow>
      appendEach fuel rt s i (object # rest) result matcher options w
        = appendEach fuel rt s (Suc i) rest
            (if Basic_Match rt matcher
                  (fst (path_Split (snd (url_Base rt (URL object) file_Scheme)))) object
             then result @ [object] else result) matcher options w
    \<and> appendEach_trigger fuel st i (object # rest) result options w
        = appendEach_trigger fuel st (Suc i) rest (result @ [object]) options w)
 \<and> (appendEach fuel rt s i objects result matcher options w = Return (None, result', w') \<longrightarrow>
      (\<forall>x\<in>set objects. \<not> IsDir x
          \<and> Basic_Match rt matcher (fst (path_Split (snd (url_Base rt (URL x) file_Scheme)))) x
          \<longrightarrow> x \<in> set result'))
 \<and> (appendEach_trigger fuel st i objects result options w = Return (None, result'', w'') \<longrightarrow>
      (\<forall>x\<in>set objects. \<not> IsDir x \<longrightarrow> x \<in> set result''))"
proof (intro conjI impI ballI)
  fix x
  assume a: "appendEach fuel rt s i objects result matcher options w = Return (None, result', w')"
    and b: "x \<in> set objects"
    and c: "\<not> IsDir x
          \<and> Basic_Match rt matcher (fst (path_Split (snd (url_Base rt (URL x) file_Scheme)))) x"
  from appendEach_keeps_matching[OF a b conjunct1[OF c] conjunct2[OF c]]
  show "x \<in> set result'" .
next
  fix x
  assume a: "appendEach_trigger fuel st i objects result options w = Return (None, result'', w'')"
    and b: "x \<in> set objects" and c: "\<not> IsDir x"
  from appendEach_trigger_keeps_files[OF a b c] show "x \<in> set result''" .
qed (simp_all add: Let_def)

theorem appendEach_by_element_witness:
  "appendEach 0 ex_runtime ex_service 0
     [\<lparr>URL = ''mem://src'', IsDir = True, ModTime = 0\<rparr>,
      \<lparr>URL = ''mem://src/new.txt'', IsDir = False, ModTime = 950\<rparr>] []
     \<lparr>Prefix = [], Suffix = ''.txt'', Filter = []\<rparr> [] []
     = Return (None, [\<lparr>URL = ''mem://src/new.txt'', IsDir = False, ModTime = 950\<rparr>], [])
   \<and> appendEach 1 ex_runtime ex_service 1
     [\<lparr>URL = ''mem://src/sub'', IsDir = True, ModTime = 0\<rparr>] []
     \<lparr>Prefix = [], Suffix = ''.log'', Filter = []\<rparr> [] []
     = Return (None, [\<lparr>URL = ''mem://src/sub/a.log'', IsDir = False, ModTime = 990\<rparr>], [])
   \<and> appendEach 0 ex_runtime ex_service 1
     [\<lparr>URL = ''mem://src/sub/a.log'', IsDir = False, ModTime = 990\<rparr>] []
     \<lparr>Prefix = [], Suffix = ''.txt'', Filter = []\<rparr> [] []
     = Return (None, [], [])
   \<and> appendEach_trigger 0 ex_trigger_service 1
     [\<lparr>URL = ''mem://src/sub/a.log'', IsDir = False, ModTime = 990\<rparr>] [] [] []
     = Return (None, [\<lparr>URL = ''mem://src/sub/a.log'', IsDir = False, ModTime = 990\<rparr>], [])"
proof -
  let ?root = "\<lparr>URL = ''mem://src'', IsDir = True, ModTime = 0\<rparr>"
  let ?new = "\<lparr>URL = ''mem://src/new.txt'', IsDir = False, ModTime = 950\<rparr>"
  let ?sub = "\<lparr>URL = ''mem://src/sub'', IsDir = True, ModTime = 0\<rparr>"
  let ?log = "\<lparr>URL = ''mem://src/sub/a.log'', IsDir = False, ModTime = 990\<rparr>"
  let ?txt = "\<lparr>Prefix = [], Suffix = ''.txt'', Filter = []\<rparr>"
  let ?logs = "\<lparr>Prefix = [], Suffix = ''.log'', Filter = []\<rparr>"
  have dir0: "IsDir ?root" and dir1: "IsDir ?sub \<and> 0 < (1::nat)" and nodir: "\<not> IsDir ?log"
    by simp_all
  have "appendEach 0 ex_runtime ex_service 0 [?root, ?new] [] ?txt [] []
          = appendEach 0 ex_runtime ex_service 1 [?new] [] ?txt [] []"
    using appendEach_by_element
            [where object = ?root and rest = "[?new]" and fuel = 0 and rt = ex_runtime
               and s = ex_service and result = "[]" and matcher = ?txt and options = "[]"
               and w = "[]" and st = ex_trigger_service,
             THEN conjunct1, THEN mp, OF dir0, THEN conjunct1] .
  then have a: "appendEach 0 ex_runtime ex_service 0 [?root, ?new] [] ?txt [] []
                  = Return (None, [?new], [])"
    by (simp add: ex_runtime_def path_Split_def)
  have "appendEach 1 ex_runtime ex_service 1 [?sub] [] ?logs [] []
          = (case appendResources 1 ex_runtime ex_service (URL ?sub) [] ?logs [] [] of
               OutOfFuel \<Rightarrow> OutOfFuel
             | Panic \<Rightarrow> Panic
             | Return (Some e, result1, w1) \<Rightarrow> Return (Some e, result1, w1)
             | Return (None, result1, w1) \<Rightarrow>
                 appendEach 1 ex_runtime ex_service (Suc 1) [] result1 ?logs [] w1)"
    using appendEach_by_element
            [where object = ?sub and rest = "[]" and fuel = 1 and rt = ex_runtime
               and s = ex_service and result = "[]" and matcher = ?logs and options = "[]"
               and w = "[]" and st = ex_trigger_service and i = 1,
             THEN conjunct2, THEN conjunct1, THEN mp, OF dir1, THEN conjunct1] .
  then have b: "appendEach 1 ex_runtime ex_service 1 [?sub] [] ?logs [] []
                  = Return (None, [?log], [])"
    by (simp add: ex_runtime_def ex_service_def ex_cron_storage_def ex_tree_def path_Split_def)
  note plain = appendEach_by_element
            [where object = ?log and rest = "[]" and fuel = 0 and rt = ex_runtime
               and s = ex_service and result = "[]" and matcher = ?txt and options = "[]"
               and w = "[]" and st = ex_trigger_service and i = 1,
             THEN conjunct2, THEN conjunct2, THEN conjunct1, THEN mp, OF nodir]
  from plain[THEN conjunct1]
  have c: "appendEach 0 ex_runtime ex_service 1 [?log] [] ?txt [] [] = Return (None, [], [])"
    by (simp add: ex_runtime_def path_Split_def)
  from plain[THEN conjunct2]
  have d: "appendEach_trigger 0 ex_trigger_service 1 [?log] [] [] []
             = Return (None, [?log], [])"
    by simp
  have "\<forall>x\<in>set [?log]. \<not> IsDir x
          \<and> Basic_Match ex_runtime ?logs
               (fst (path_Split (snd (url_Base ex_runtime (URL x) file_Scheme)))) x
          \<longrightarrow> x \<in> set [?log]"
    using appendEach_by_element
            [where objects = "[?sub]" and fuel = 1 and rt = ex_runtime
               and s = ex_service and result = "[]" and matcher = ?logs and options = "[]"
               and w = "[]" and i = 1 and result' = "[?log]" and w' = "[]",
             THEN conjunct2, THEN conjunct2, THEN conjunct2, THEN conjunct1, THEN mp, OF b]
    by simp
  have "\<forall>x\<in>set [?log]. \<not> IsDir x \<longrightarrow> x \<in> set [?log]"
    using appendEach_by_element
            [where objects = "[?log]" and fuel = 0 and st = ex_trigger_service and result = "[]"
               and options = "[]" and w = "[]" and i = 1 and result'' = "[?log]" and w'' = "[]",
             THEN conjunct2, THEN conjunct2, THEN conjunct2, THEN conjunct2, THEN mp, OF d] .
  from a b c d show ?thesis by blast
qed

text \<open>
  The service with the proxy hands every listing the matcher for the window: if the store
  returns, under a modification matcher with lower bound \<open>t\<close>, only directories and
  objects modified at \<open>t\<close> or later, every candidate was modified at
  \<open>now - TimeWindow\<close> or later.
\<close>

lemma getResourceCandidates_within_window:
  assumes honours: "\<And>url options w0 objects e w1 t object.
      fs_List (fs s) url options w0 = ((objects, e), w1)
        \<Longrightarrow> Modification None (Some t) \<in> set options
        \<Longrightarrow> object \<in> set objects \<Longrightarrow> \<not> IsDir object \<Longrightarrow> t \<le> ModTime object"
    and sec: "secret s = Some sec"
    and opts: "StorageOpts sec (Source resource) w = ((options, None), w1)"
    and run: "getResourceCandidates fuel rt s resource w = Return ((candidates, err), w2)"
  shows "\<forall>object\<in>set candidates. Now rt w1 - TimeWindow (config s) \<le> ModTime object"
proof -
  let ?t = "Now rt w1 - TimeWindow (config s)"
  let ?options = "options @ [Modification None (Some ?t)]"
  from run sec opts
  have a: "appendResources fuel rt s (Resource_URL (Source resource)) []
             (Resource_Basic (Source resource)) ?options w1 = Return (err, candidates, w2)"
    by (auto simp: getResourceCandidates_def addLastModifiedTimeMatcher_def Let_def
             split: outcome.splits prod.splits)
  have "\<exists>added. candidates = [] @ added \<and> (\<forall>object\<in>set added. ?t \<le> ModTime object)"
  proof (rule appendResources_added[where P = "\<lambda>object. ?t \<le> ModTime object", OF _ a])
    fix url w0 objects e w1' object
    assume "fs_List (fs s) url ?options w0 = ((objects, e), w1')"
      and "object \<in> set objects" and "\<not> IsDir object"
    then show "?t \<le> ModTime object"
      using honours[of url ?options w0 objects e w1' ?t object] by simp
  qed
  then show ?thesis by simp
qed

text \<open>
  C2 on the service with triggers: the example store honours modification matchers, the
  window starts at 900, and the candidates include the object modified at 10. On the same
  store the service with the proxy leaves that object out.
\<close>

theorem getResourceCandidates_trigger_ignores_window:
  "getResourceCandidates_trigger 2 ex_trigger_service
       \<lparr>Rule_Resource = ex_resource ''mem://src'' []\<rparr> []
     = Return (([\<lparr>URL = ''mem://src/new.txt'', IsDir = False, ModTime = 950\<rparr>,
                 \<lparr>URL = ''mem://src/old.txt'', IsDir = False, ModTime = 10\<rparr>,
                 \<lparr>URL = ''mem://src/sub/a.log'', IsDir = False, ModTime = 990\<rparr>], None), [])
   \<and> Now (ex_runtime :: (string list, trigger_Rule, nat) runtime) []
         - TimeWindow (config ex_trigger_service) = 900
   \<and> getResourceCandidates 2 ex_runtime ex_service (ex_rule []) []
     = Return (([\<lparr>URL = ''mem://src/new.txt'', IsDir = False, ModTime = 950\<rparr>,
                 \<lparr>URL = ''mem://src/sub/a.log'', IsDir = False, ModTime = 990\<rparr>], None), [])"
  by (simp add: getResourceCandidates_trigger_def getResourceCandidates_def
        addLastModifiedTimeMatcher_def ex_trigger_service_def ex_service_def ex_secret_def
        ex_resource_def ex_rule_def ex_cron_storage_def ex_tree_def ex_accepts_def
        ex_runtime_def path_Split_def eval_nat_numeral)

section \<open>Properties of processing a rule\<close>

lemma notifyEach_length:
  "notifyEach s rule objects response w = (errs, response1, w1) \<Longrightarrow> length errs = length objects"
  by (induction objects arbitrary: response w errs) (auto split: prod.splits)

lemma notifyEach_trigger_length:
  "notifyEach_trigger s rule objects w = Return (errs, w1) \<Longrightarrow> length errs = length objects"
  by (induction objects arbitrary: w errs) (auto split: prod.splits outcome.splits)

lemma first_error_None: "first_error errs = None \<longleftrightarrow> (\<forall>e\<in>set errs. e = None)"
  by (induction errs rule: first_error.induct) auto

lemma first_error_Some: "first_error errs = Some e \<Longrightarrow> Some e \<in> set errs"
  by (induction errs rule: first_error.induct) auto

lemma appendEach_reads_fs:
  assumes rec: "\<And>url result w.
      appendResources fuel rt s' url result matcher options w
        = appendResources fuel rt s url result matcher options w"
  shows "appendEach fuel rt s' i objects result matcher options w
           = appendEach fuel rt s i objects result matcher options w"
proof (induction objects arbitrary: i result w)
  case Nil
  show ?case by simp
next
  case (Cons object rest)
  show ?case
    by (simp add: rec Cons.IH Let_def split: outcome.splits prod.splits option.splits)
qed

lemma appendResources_reads_fs:
  assumes "fs s' = fs s"
  shows "appendResources fuel rt s' url result matcher options w
           = appendResources fuel rt s url result matcher options w"
proof (induction fuel arbitrary: url result w)
  case 0
  show ?case by simp
next
  case (Suc fuel)
  show ?case
    by (simp add: assms appendEach_reads_fs[of fuel rt s' matcher options s, OF Suc.IH]
             split: prod.splits option.splits)
qed

lemma getResourceCandidates_ledger:
  "getResourceCandidates fuel rt (s\<lparr>metaService := ms\<rparr>) resource w
     = getResourceCandidates fuel rt s resource w"
proof -
  have "appendResources fuel rt (s\<lparr>metaService := ms\<rparr>) url result matcher options v
          = appendResources fuel rt s url result matcher options v" for url result matcher options v
    by (rule appendResources_reads_fs) simp
  then show ?thesis
    by (simp add: getResourceCandidates_def addLastModifiedTimeMatcher_def
             cong: option.case_cong prod.case_cong)
qed

lemma notifyEach_ledger:
  "notifyEach (s\<lparr>metaService := ms\<rparr>) rule objects response w = notifyEach s rule objects response w"
  by (induction objects arbitrary: response w) (simp_all add: notify_def)

lemma appendEach_trigger_reads_fs:
  assumes rec: "\<And>url result w.
      appendResources_trigger fuel s' url result options w
        = appendResources_trigger fuel s url result options w"
  shows "appendEach_trigger fuel s' i objects result options w
           = appendEach_trigger fuel s i objects result options w"
proof (induction objects arbitrary: i result w)
  case Nil
  show ?case by simp
next
  case (Cons object rest)
  show ?case
    by (simp add: rec Cons.IH split: outcome.splits prod.splits option.splits)
qed

lemma appendResources_trigger_reads_fs:
  assumes "fs s' = fs s"
  shows "appendResources_trigger fuel s' url result options w
           = appendResources_trigger fuel s url result options w"
proof (induction fuel arbitrary: url result w)
  case 0
  show ?case by simp
next
  case (Suc fuel)
  show ?case
    by (simp add: assms appendEach_trigger_reads_fs[of fuel s' options s, OF Suc.IH]
             split: prod.splits option.splits)
qed

lemma getResourceCandidates_trigger_ledger:
  "getResourceCandidates_trigger fuel (s\<lparr>metaService := ms\<rparr>) resource w
     = getResourceCandidates_trigger fuel s resource w"
proof -
  have "appendResources_trigger fuel (s\<lparr>metaService := ms\<rparr>) url result options v
          = appendResources_trigger fuel s url result options v" for url result options v
    by (rule appendResources_trigger_reads_fs) simp
  then show ?thesis
    by (simp add: getResourceCandidates_trigger_def cong: option.case_cong prod.case_cong)
qed

lemma notifyEach_trigger_ledger:
  "notifyEach_trigger (s\<lparr>metaService := ms\<rparr>) rule objects w = notifyEach_trigger s rule objects w"
  by (induction objects arbitrary: w)
     (simp_all add: notify_trigger_def cong: option.case_cong outcome.case_cong prod.case_cong)

lemma processResource_notified:
  assumes "getResourceCandidates fuel rt s resource w = Return ((objects, None), w1)"
    and "PendingResources (metaService s) objects w1 = ((pending, None), w2)"
    and "pending \<noteq> []"
    and "notifyEach s resource (schedule rt pending) response w2 = (errs, response1, w3)"
  shows "processResource fuel rt s resource response w =
           (case first_error errs of
              Some e \<Rightarrow> Return (([], Some (Wrap e ''failed to notify all'')), response1, w3)
            | None \<Rightarrow>
                (case AddProcessed (metaService s) pending w3 of
                   (err1, w4) \<Rightarrow>
                     Return ((pending, errors_Wrap err1 ''failed to update processed''),
                             response1, w4)))"
  using assms by (simp add: processResource_def notifyAll_def split: option.splits)

lemma processResource_trigger_notified:
  assumes "getResourceCandidates_trigger fuel st rule w = Return ((objects, None), w1)"
    and "PendingResources (metaService st) objects w1 = ((pending, None), w2)"
    and "pending \<noteq> []"
    and "notifyEach_trigger st rule (schedule rt pending) w2 = Return (errs, w3)"
  shows "processResource_trigger fuel rt st rule w =
           (case first_error errs of
              Some e \<Rightarrow> Return (([], Some e), w3)
            | None \<Rightarrow>
                (case AddProcessed (metaService st) pending w3 of
                   (err1, w4) \<Rightarrow> Return ((pending, err1), w4)))"
  using assms by (simp add: processResource_trigger_def notifyAll_trigger_def split: option.splits)

text \<open>
  C3: in both variants, once the candidates are listed and some are pending, the run of the
  dispatched notifications decides. If none of them returns an error, \<^verbatim>\<open>processResource\<close>
  calls \<^verbatim>\<open>AddProcessed\<close> with the pending objects in the world the notifications have left.
  If one returns an error, \<^verbatim>\<open>processResource\<close> returns one of these errors and no object,
  in the world the notifications have left, whatever \<^verbatim>\<open>AddProcessed\<close> would do: it is not
  called.
\<close>

theorem AddProcessed_only_after_notifications:
  fixes s :: "('w, 'm) service" and st :: "('w, 'm) trigger_service"
  shows
  "(getResourceCandidates fuel rt s resource w = Return ((objects, None), w1)
      \<and> PendingResources (metaService s) objects w1 = ((pending, None), w2) \<and> pending \<noteq> []
      \<and> notifyEach s resource (schedule rt pending) response w2 = (errs, response1, w3)
    \<longrightarrow> length errs = length (schedule rt pending)
      \<and> ((\<forall>e\<in>set errs. e = None) \<longrightarrow>
            processResource fuel rt s resource response w
              = (case AddProcessed (metaService s) pending w3 of
                   (err1, w4) \<Rightarrow>
                     Return ((pending, errors_Wrap err1 ''failed to update processed''),
                             response1, w4)))
      \<and> ((\<exists>e. Some e \<in> set errs) \<longrightarrow>
            (\<exists>e. Some e \<in> set errs \<and>
              (\<forall>ledger. processResource fuel rt
                           (s\<lparr>metaService := (metaService s)\<lparr>AddProcessed := ledger\<rparr>\<rparr>)
                           resource response w
                  = Return (([], Some (Wrap e ''failed to notify all'')), response1, w3)))))
 \<and> (getResourceCandidates_trigger fuel st rule v = Return ((objects', None), v1)
      \<and> PendingResources (metaService st) objects' v1 = ((pending', None), v2) \<and> pending' \<noteq> []
      \<and> notifyEach_trigger st rule (schedule rt' pending') v2 = Return (errs', v3)
    \<longrightarrow> length errs' = length (schedule rt' pending')
      \<and> ((\<forall>e\<in>set errs'. e = None) \<longrightarrow>
            processResource_trigger fuel rt' st rule v
              = (case AddProcessed (metaService st) pending' v3 of
                   (err1, v4) \<Rightarrow> Return ((pending', err1), v4)))
      \<and> ((\<exists>e. Some e \<in> set errs') \<longrightarrow>
            (\<exists>e. Some e \<in> set errs' \<and>
              (\<forall>ledger. processResource_trigger fuel rt'
                           (st\<lparr>metaService := (metaService st)\<lparr>AddProcessed := ledger\<rparr>\<rparr>)
                           rule v
                  = Return (([], Some e), v3)))))"
proof (intro conjI impI)
  assume h: "getResourceCandidates fuel rt s resource w = Return ((objects, None), w1)
      \<and> PendingResources (metaService s) objects w1 = ((pending, None), w2) \<and> pending \<noteq> []
      \<and> notifyEach s resource (schedule rt pending) response w2 = (errs, response1, w3)"
  then have "notifyEach s resource (schedule rt pending) response w2 = (errs, response1, w3)"
    by simp
  from notifyEach_length[OF this] show "length errs = length (schedule rt pending)" .
  {
    assume "\<forall>e\<in>set errs. e = None"
    then have "first_error errs = None" by (simp add: first_error_None)
    with h show "processResource fuel rt s resource response w
              = (case AddProcessed (metaService s) pending w3 of
                   (err1, w4) \<Rightarrow>
                     Return ((pending, errors_Wrap err1 ''failed to update processed''),
                             response1, w4))"
      using processResource_notified[of fuel rt s resource w objects w1 pending w2 response errs
              response1 w3]
      by simp
  }
  {
    assume "\<exists>e. Some e \<in> set errs"
    then obtain e where e: "first_error errs = Some e"
      using first_error_None[of errs] by (cases "first_error errs") auto
    have "processResource fuel rt (s\<lparr>metaService := (metaService s)\<lparr>AddProcessed := ledger\<rparr>\<rparr>)
            resource response w
          = Return (([], Some (Wrap e ''failed to notify all'')), response1, w3)" for ledger
      using h e
        processResource_notified[of fuel rt
          "s\<lparr>metaService := (metaService s)\<lparr>AddProcessed := ledger\<rparr>\<rparr>" resource w objects w1
          pending w2 response errs response1 w3]
      by (simp add: getResourceCandidates_ledger notifyEach_ledger)
    with first_error_Some[OF e]
    show "\<exists>e. Some e \<in> set errs \<and>
              (\<forall>ledger. processResource fuel rt
                           (s\<lparr>metaService := (metaService s)\<lparr>AddProcessed := ledger\<rparr>\<rparr>)
                           resource response w
                  = Return (([], Some (Wrap e ''failed to notify all'')), response1, w3))"
      by blast
  }
next
  assume h: "getResourceCandidates_trigger fuel st rule v = Return ((objects', None), v1)
      \<and> PendingResources (metaService st) objects' v1 = ((pending', None), v2) \<and> pending' \<noteq> []
      \<and> notifyEach_trigger st rule (schedule rt' pending') v2 = Return (errs', v3)"
  then have "notifyEach_trigger st rule (schedule rt' pending') v2 = Return (errs', v3)"
    by simp
  from notifyEach_trigger_length[OF this] show "length errs' = length (schedule rt' pending')" .
  {
    assume "\<forall>e\<in>set errs'. e = None"
    then have "first_error errs' = None" by (simp add: first_error_None)
    with h show "processResource_trigger fuel rt' st rule v
              = (case AddProcessed (metaService st) pending' v3 of
                   (err1, v4) \<Rightarrow> Return ((pending', err1), v4))"
      using processResource_trigger_notified[of fuel st rule v objects' v1 pending' v2 rt' errs' v3]
      by simp
  }
  {
    assume "\<exists>e. Some e \<in> set errs'"
    then obtain e where e: "first_error errs' = Some e"
      using first_error_None[of errs'] by (cases "first_error errs'") auto
    have "processResource_trigger fuel rt'
            (st\<lparr>metaService := (metaService st)\<lparr>AddProcessed := ledger\<rparr>\<rparr>) rule v
          = Return (([], Some e), v3)" for ledger
      using h e
        processResource_trigger_notified[of fuel
          "st\<lparr>metaService := (metaService st)\<lparr>AddProcessed := ledger\<rparr>\<rparr>" rule v objects' v1
          pending' v2 rt' errs' v3]
      by (simp add: getResourceCandidates_trigger_ledger notifyEach_trigger_ledger)
    with first_error_Some[OF e]
    show "\<exists>e. Some e \<in> set errs' \<and>
              (\<forall>ledger. processResource_trigger fuel rt'
                           (st\<lparr>metaService := (metaService st)\<lparr>AddProcessed := ledger\<rparr>\<rparr>)
                           rule v
                  = Return (([], Some e), v3))"
      by blast
  }
qed

lemmas ex_defs = ex_service_def ex_trigger_service_def ex_cron_storage_def ex_tree_def
  ex_accepts_def ex_secret_def ex_ledger_def ex_runtime_def ex_resource_def ex_rule_def
  ex_proxy_def ex_trigger_def ex_trigger_rule_def ex_cron_deps_def

theorem AddProcessed_only_after_notifications_witness:
  "processResource 2 ex_runtime ex_service (ex_rule ''.txt'') NewResponse []
     = Return (([\<lparr>URL = ''mem://src/new.txt'', IsDir = False, ModTime = 950\<rparr>], None),
               NewResponse, [''proxy:mem://src/new.txt'', ''done:mem://src/new.txt''])
   \<and> processResource 2 ex_runtime ex_service (ex_rule ''.log'') NewResponse []
     = Return (([], Some (Wrap (Err ''boom'') ''failed to notify all'')),
               NewResponse, [''proxy:mem://src/sub/a.log''])
   \<and> processResource_trigger 2 ex_runtime (ex_trigger_service\<lparr>dest := Some ex_trigger\<rparr>)
        (ex_trigger_rule ''mem://src/sub'') []
     = Return (([\<lparr>URL = ''mem://src/sub/a.log'', IsDir = False, ModTime = 990\<rparr>], None),
               [''trigger:mem://src/sub/a.log'', ''done:mem://src/sub/a.log''])
   \<and> processResource_trigger 2 ex_runtime (ex_trigger_service\<lparr>dest := Some ex_trigger\<rparr>)
        (ex_trigger_rule ''mem://src'') []
     = Return (([], Some (Err ''boom'')),
               [''trigger:mem://src/sub/a.log'', ''trigger:mem://src/old.txt'',
                ''trigger:mem://src/new.txt''])"
proof -
  let ?new = "\<lparr>URL = ''mem://src/new.txt'', IsDir = False, ModTime = 950\<rparr>"
  let ?old = "\<lparr>URL = ''mem://src/old.txt'', IsDir = False, ModTime = 10\<rparr>"
  let ?log = "\<lparr>URL = ''mem://src/sub/a.log'', IsDir = False, ModTime = 990\<rparr>"
  let ?st = "ex_trigger_service\<lparr>dest := Some ex_trigger\<rparr>"
  let ?all = "[''trigger:mem://src/sub/a.log'', ''trigger:mem://src/old.txt'',
               ''trigger:mem://src/new.txt'']"
  have same: "ex_service\<lparr>metaService := (metaService ex_service)
                \<lparr>AddProcessed := AddProcessed (metaService ex_service)\<rparr>\<rparr> = ex_service"
    and same': "?st\<lparr>metaService := (metaService ?st)
                \<lparr>AddProcessed := AddProcessed (metaService ?st)\<rparr>\<rparr> = ?st"
    by simp_all
  have htxt: "getResourceCandidates 2 ex_runtime ex_service (ex_rule ''.txt'') []
               = Return (([?new], None), [])
             \<and> PendingResources (metaService ex_service) [?new] [] = (([?new], None), [])
             \<and> [?new] \<noteq> []
             \<and> notifyEach ex_service (ex_rule ''.txt'') (schedule ex_runtime [?new]) NewResponse []
               = ([None], NewResponse, [''proxy:mem://src/new.txt''])"
    by (simp add: getResourceCandidates_def addLastModifiedTimeMatcher_def notify_def
          CloneWithURL_def NewResponse_def path_Split_def eval_nat_numeral ex_defs)
  have hlog: "getResourceCandidates 2 ex_runtime ex_service (ex_rule ''.log'') []
               = Return (([?log], None), [])
             \<and> PendingResources (metaService ex_service) [?log] [] = (([?log], None), [])
             \<and> [?log] \<noteq> []
             \<and> notifyEach ex_service (ex_rule ''.log'') (schedule ex_runtime [?log]) NewResponse []
               = ([Some (Err ''boom'')], NewResponse, [''proxy:mem://src/sub/a.log''])"
    by (simp add: getResourceCandidates_def addLastModifiedTimeMatcher_def notify_def
          CloneWithURL_def NewResponse_def path_Split_def eval_nat_numeral ex_defs)
  have hsub: "getResourceCandidates_trigger 2 ?st (ex_trigger_rule ''mem://src/sub'') []
               = Return (([?log], None), [])
             \<and> PendingResources (metaService ?st) [?log] [] = (([?log], None), [])
             \<and> [?log] \<noteq> []
             \<and> notifyEach_trigger ?st (ex_trigger_rule ''mem://src/sub'')
                  (schedule ex_runtime [?log]) []
               = Return ([None], [''trigger:mem://src/sub/a.log''])"
    by (simp add: getResourceCandidates_trigger_def notify_trigger_def eval_nat_numeral ex_defs)
  have hsrc: "getResourceCandidates_trigger 2 ?st (ex_trigger_rule ''mem://src'') []
               = Return (([?new, ?old, ?log], None), [])
             \<and> PendingResources (metaService ?st) [?new, ?old, ?log] []
               = (([?new, ?old, ?log], None), [])
             \<and> [?new, ?old, ?log] \<noteq> []
             \<and> notifyEach_trigger ?st (ex_trigger_rule ''mem://src'')
                  (schedule ex_runtime [?new, ?old, ?log]) []
               = Return ([None, Some (Err ''boom''), None], ?all)"
    by (simp add: getResourceCandidates_trigger_def notify_trigger_def eval_nat_numeral ex_defs)
  note ok = AddProcessed_only_after_notifications
              [where s = ex_service and st = ?st and fuel = 2 and rt = ex_runtime
                 and rt' = ex_runtime and w = "[]" and v = "[]"
                 and resource = "ex_rule ''.txt''" and rule = "ex_trigger_rule ''mem://src''"]
  note bad = AddProcessed_only_after_notifications
              [where s = ex_service and st = ?st and fuel = 2 and rt = ex_runtime
                 and rt' = ex_runtime and w = "[]" and v = "[]"
                 and resource = "ex_rule ''.log''" and rule = "ex_trigger_rule ''mem://src/sub''"]
  have a: "processResource 2 ex_runtime ex_service (ex_rule ''.txt'') NewResponse []
             = Return (([?new], None), NewResponse,
                       [''proxy:mem://src/new.txt'', ''done:mem://src/new.txt''])"
    using ok[THEN conjunct1, THEN mp, OF htxt, THEN conjunct2, THEN conjunct1]
    by (simp add: ex_service_def ex_ledger_def)
  have b: "processResource 2 ex_runtime ex_service (ex_rule ''.log'') NewResponse []
             = Return (([], Some (Wrap (Err ''boom'') ''failed to notify all'')), NewResponse,
                       [''proxy:mem://src/sub/a.log''])"
    using bad[THEN conjunct1, THEN mp, OF hlog, THEN conjunct2, THEN conjunct2]
    by (auto dest: spec[where x = "AddProcessed (metaService ex_service)"] simp: same)
  have c: "processResource_trigger 2 ex_runtime ?st (ex_trigger_rule ''mem://src/sub'') []
             = Return (([?log], None),
                       [''trigger:mem://src/sub/a.log'', ''done:mem://src/sub/a.log''])"
    using bad[THEN conjunct2, THEN mp, OF hsub, THEN conjunct2, THEN conjunct1]
    by (simp add: ex_trigger_service_def ex_ledger_def)
  have d: "processResource_trigger 2 ex_runtime ?st (ex_trigger_rule ''mem://src'') []
             = Return (([], Some (Err ''boom'')), ?all)"
    using ok[THEN conjunct2, THEN mp, OF hsrc, THEN conjunct2, THEN conjunct2]
    by (auto dest: spec[where x = "AddProcessed (metaService ?st)"] simp: same')
  from a b c d show ?thesis by blast
qed

section \<open>Properties of a tick\<close>

lemma tickEach_append:
  "tickEach fuel rt s pre response w = Return (None, response1, w1)
     \<Longrightarrow> tickEach fuel rt s (pre @ post) response w = tickEach fuel rt s post response1 w1"
  by (induction pre arbitrary: response w)
     (auto split: outcome.splits prod.splits option.splits if_splits)

text \<open>
  The errors of \<^verbatim>\<open>processResource\<close> carry the context of the step that failed: the
  listing of the candidates, the reading of the ledger, a notification, the write to the
  ledger.
\<close>

lemma processResource_error_cases:
  assumes run: "processResource fuel rt s resource response w
                  = Return ((processed, Some e), response1, w1)"
  shows "(\<exists>cause. e = Wrap cause (''failed to get resource candidate ''
                                    @ Resource_URL (Source resource)))
       \<or> (\<exists>cause n. e = Wrap cause (''failed to read pending resource '' @ decimal n))
       \<or> (\<exists>cause. e = Wrap cause ''failed to notify all'')
       \<or> (\<exists>cause. e = Wrap cause ''failed to update processed'')"
proof (cases "getResourceCandidates fuel rt s resource w")
  case OutOfFuel
  with run show ?thesis by (simp add: processResource_def)
next
  case Panic
  with run show ?thesis by (simp add: processResource_def)
next
  case (Return x)
  obtain objects cerr v1 where x: "x = ((objects, cerr), v1)" by (cases x) auto
  show ?thesis
  proof (cases cerr)
    case (Some c)
    with run Return x have "e = Wrap c (''failed to get resource candidate ''
                                         @ Resource_URL (Source resource))"
      by (simp add: processResource_def)
    then show ?thesis by blast
  next
    case None
    obtain pending perr v2
      where p: "PendingResources (metaService s) objects v1 = ((pending, perr), v2)"
      by (cases "PendingResources (metaService s) objects v1") auto
    show ?thesis
    proof (cases "perr \<noteq> None \<or> length pending = 0")
      case True
      with run Return x None p
      have "errors_Wrap perr (''failed to read pending resource '' @ decimal (length objects))
              = Some e"
        by (simp add: processResource_def)
      then have "\<exists>cause. e = Wrap cause (''failed to read pending resource ''
                                            @ decimal (length objects))"
        by (cases perr) auto
      then show ?thesis by blast
    next
      case False
      obtain nerr r3 v3
        where n: "notifyAll rt s resource pending response v2 = (nerr, r3, v3)"
        by (cases "notifyAll rt s resource pending response v2") auto
      show ?thesis
      proof (cases nerr)
        case (Some c)
        with run Return x None p False n have "e = Wrap c ''failed to notify all''"
          by (simp add: processResource_def)
        then show ?thesis by blast
      next
        case nnone: None
        obtain aerr v4 where a: "AddProcessed (metaService s) pending v3 = (aerr, v4)"
          by (cases "AddProcessed (metaService s) pending v3") auto
        with run Return x None p False n nnone
        have "errors_Wrap aerr ''failed to update processed'' = Some e"
          by (simp add: processResource_def)
        then have "\<exists>cause. e = Wrap cause ''failed to update processed''"
          by (cases aerr) auto
        then show ?thesis by blast
      qed
    qed
  qed
qed

lemma tick_unfold:
  assumes "ReloadIfNeeded d (fs s) (Config_Resources (config s)) w
             = ((changed, err), resources1, w1)"
    and "s1 = s\<lparr>config := (config s)\<lparr>Config_Resources := resources1\<rparr>\<rparr>"
    and "(if changed \<and> err = None then UpdateSecrets s1 w1 else (err, w1)) = (err1, w2)"
  shows "tick fuel d rt s response w =
           (case err1 of
              Some e \<Rightarrow> Return (Some e, s1, response, w2)
            | None \<Rightarrow>
                (case tickEach fuel rt s1 (Rules resources1) response w2 of
                   OutOfFuel \<Rightarrow> OutOfFuel
                 | Panic \<Rightarrow> Panic
                 | Return (err2, response1, w3) \<Rightarrow> Return (err2, s1, response1, w3)))"
proof -
  have "tick fuel d rt s response w =
          (case (if changed \<and> err = None then UpdateSecrets s1 w1 else (err, w1)) of
             (Some e, w2) \<Rightarrow> Return (Some e, s1, response, w2)
           | (None, w2) \<Rightarrow>
               (case tickEach fuel rt s1 (Rules (Config_Resources (config s1))) response w2 of
                  OutOfFuel \<Rightarrow> OutOfFuel
                | Panic \<Rightarrow> Panic
                | Return (err2, response1, w3) \<Rightarrow> Return (err2, s1, response1, w3)))"
    unfolding tick_def assms(1) assms(2) Let_def by simp
  also have "Rules (Config_Resources (config s1)) = Rules resources1"
    using assms(2) by simp
  finally show ?thesis
    unfolding assms(3) by (cases err1) simp_all
qed

text \<open>
  C5: the first error ends the tick. An error of the reload skips the update of the secrets;
  an error of the reload or of the secrets returns at once, with no rule processed; an
  error of \<^verbatim>\<open>processResource\<close> on a rule, after the rules before it went through, returns
  whatever rules follow. In each case \<^verbatim>\<open>Tick\<close> returns the response with the status
  \<^verbatim>\<open>error\<close> and the message of that error.
\<close>

theorem first_error_aborts_tick:
  assumes "ReloadIfNeeded d (fs s) (Config_Resources (config s)) w
             = ((changed, err), resources1, w1)"
    and "s1 = s\<lparr>config := (config s)\<lparr>Config_Resources := resources1\<rparr>\<rparr>"
    and "(if changed \<and> err = None then UpdateSecrets s1 w1 else (err, w1)) = (err1, w2)"
  shows "(err = Some e \<longrightarrow> err1 = Some e \<and> w2 = w1)
       \<and> (err1 = Some e \<longrightarrow>
            Tick fuel d rt s w
              = Return (NewResponse\<lparr>Status := StatusError, Error := error_Error e\<rparr>, s1, w2))
       \<and> (err1 = None \<and> Rules resources1 = pre @ resource # post
            \<and> tickEach fuel rt s1 pre NewResponse w2 = Return (None, response1, w3)
            \<and> processResource fuel rt s1 resource response1 w3
                = Return ((processed, Some e), response2, w4)
          \<longrightarrow> Tick fuel d rt s w
                = Return (response2\<lparr>Status := StatusError, Error := error_Error e\<rparr>, s1, w4))"
proof (intro conjI impI)
  assume "err = Some e"
  with assms(3) show "err1 = Some e" and "w2 = w1" by simp_all
next
  assume "err1 = Some e"
  then show "Tick fuel d rt s w
              = Return (NewResponse\<lparr>Status := StatusError, Error := error_Error e\<rparr>, s1, w2)"
    by (simp add: Tick_def tick_unfold[OF assms])
next
  assume h: "err1 = None \<and> Rules resources1 = pre @ resource # post
            \<and> tickEach fuel rt s1 pre NewResponse w2 = Return (None, response1, w3)
            \<and> processResource fuel rt s1 resource response1 w3
                = Return ((processed, Some e), response2, w4)"
  then have "tickEach fuel rt s1 (pre @ resource # post) NewResponse w2
               = tickEach fuel rt s1 (resource # post) response1 w3"
    using tickEach_append[of fuel rt s1 pre NewResponse w2 response1 w3 "resource # post"] by simp
  with h have "tickEach fuel rt s1 (Rules resources1) NewResponse w2 = Return (Some e, response2, w4)"
    by simp
  with h show "Tick fuel d rt s w
                = Return (response2\<lparr>Status := StatusError, Error := error_Error e\<rparr>, s1, w4)"
    by (simp add: Tick_def tick_unfold[OF assms])
qed

theorem first_error_aborts_tick_witness:
  "Tick 2 ex_cron_deps ex_runtime
     (ex_service\<lparr>config := (config ex_service)\<lparr>TimeWindow := 2000\<rparr>\<rparr>) []
     = Return (NewResponse\<lparr>Response_Matched :=
                   [\<lparr>Matched_Resource = ex_rule ''new.txt'', URLs = [''mem://src/new.txt'']\<rparr>],
                 Status := StatusError, Error := ''failed to notify all: boom''\<rparr>,
               ex_service\<lparr>config := (config ex_service)
                 \<lparr>TimeWindow := 2000,
                  Config_Resources := (Config_Resources (config ex_service))\<lparr>meta := 2\<rparr>\<rparr>\<rparr>,
               [''proxy:mem://src/new.txt'', ''done:mem://src/new.txt'',
                ''proxy:mem://src/sub/a.log''])
   \<and> Tick 2 ex_cron_deps ex_runtime
     (ex_service\<lparr>config := (config ex_service)
        \<lparr>Config_Resources := (Config_Resources (config ex_service))\<lparr>meta := 7\<rparr>\<rparr>\<rparr>) []
     = Return (NewResponse\<lparr>Status := StatusError, Error := ''meta unreadable''\<rparr>,
               ex_service\<lparr>config := (config ex_service)
                 \<lparr>Config_Resources := (Config_Resources (config ex_service))\<lparr>meta := 8\<rparr>\<rparr>\<rparr>,
               [])"
proof -
  let ?s = "ex_service\<lparr>config := (config ex_service)\<lparr>TimeWindow := 2000\<rparr>\<rparr>"
  let ?s1 = "ex_service\<lparr>config := (config ex_service)
               \<lparr>TimeWindow := 2000,
                Config_Resources := (Config_Resources (config ex_service))\<lparr>meta := 2\<rparr>\<rparr>\<rparr>"
  let ?r1 = "NewResponse\<lparr>Response_Matched :=
               [\<lparr>Matched_Resource = ex_rule ''new.txt'', URLs = [''mem://src/new.txt'']\<rparr>]\<rparr>"
  let ?w3 = "[''proxy:mem://src/new.txt'', ''done:mem://src/new.txt'']"
  let ?e = "Wrap (Err ''boom'') ''failed to notify all''"
  have reload: "ReloadIfNeeded ex_cron_deps (fs ?s) (Config_Resources (config ?s)) []
                  = ((False, None), (Config_Resources (config ex_service))\<lparr>meta := 2\<rparr>, [])"
    by (simp add: ReloadIfNeeded_def ex_cron_deps_def ex_service_def)
  have s1: "?s1 = ?s\<lparr>config := (config ?s)
              \<lparr>Config_Resources := (Config_Resources (config ex_service))\<lparr>meta := 2\<rparr>\<rparr>\<rparr>"
    by simp
  have secrets: "(if False \<and> (None::error option) = None then UpdateSecrets ?s1 [] else (None, []))
                   = (None, [])"
    by simp
  have rules: "Rules ((Config_Resources (config ex_service))\<lparr>meta := 2\<rparr>)
                 = [ex_rule ''new.txt''] @ ex_rule ''.log'' # [ex_rule ''.txt'']"
    by (simp add: ex_service_def)
  have pre: "tickEach 2 ex_runtime ?s1 [ex_rule ''new.txt''] NewResponse []
               = Return (None, ?r1, ?w3)"
    by (simp add: processResource_def getResourceCandidates_def addLastModifiedTimeMatcher_def
          path_Split_def eval_nat_numeral notifyAll_def notify_def CloneWithURL_def
          NewResponse_def Matched_Add_def ex_defs)
  have failing: "processResource 2 ex_runtime ?s1 (ex_rule ''.log'') ?r1 ?w3
                   = Return (([], Some ?e), ?r1, ?w3 @ [''proxy:mem://src/sub/a.log''])"
    by (simp add: processResource_def getResourceCandidates_def addLastModifiedTimeMatcher_def
          path_Split_def eval_nat_numeral notifyAll_def notify_def CloneWithURL_def
          NewResponse_def ex_defs)
  have a: "Tick 2 ex_cron_deps ex_runtime ?s []
             = Return (?r1\<lparr>Status := StatusError, Error := error_Error ?e\<rparr>, ?s1,
                       ?w3 @ [''proxy:mem://src/sub/a.log''])"
    using first_error_aborts_tick[OF reload s1 secrets, where e = ?e and rt = ex_runtime
            and fuel = 2 and pre = "[ex_rule ''new.txt'']" and resource = "ex_rule ''.log''"
            and post = "[ex_rule ''.txt'']" and ?response1.0 = ?r1 and ?w3.0 = ?w3
            and processed = "[]" and ?response2.0 = ?r1
            and ?w4.0 = "?w3 @ [''proxy:mem://src/sub/a.log'']",
          THEN conjunct2, THEN conjunct2, THEN mp, OF conjI[OF refl conjI[OF rules conjI[OF pre failing]]]]
    .
  let ?t = "ex_service\<lparr>config := (config ex_service)
              \<lparr>Config_Resources := (Config_Resources (config ex_service))\<lparr>meta := 7\<rparr>\<rparr>\<rparr>"
  let ?t1 = "ex_service\<lparr>config := (config ex_service)
              \<lparr>Config_Resources := (Config_Resources (config ex_service))\<lparr>meta := 8\<rparr>\<rparr>\<rparr>"
  have reload': "ReloadIfNeeded ex_cron_deps (fs ?t) (Config_Resources (config ?t)) []
                  = ((False, Some (Err ''meta unreadable'')),
                     (Config_Resources (config ex_service))\<lparr>meta := 8\<rparr>, [])"
    by (simp add: ReloadIfNeeded_def ex_cron_deps_def ex_service_def)
  have t1: "?t1 = ?t\<lparr>config := (config ?t)
              \<lparr>Config_Resources := (Config_Resources (config ex_service))\<lparr>meta := 8\<rparr>\<rparr>\<rparr>"
    by simp
  have secrets': "(if False \<and> Some (Err ''meta unreadable'') = None then UpdateSecrets ?t1 []
                   else (Some (Err ''meta unreadable''), []))
                   = (Some (Err ''meta unreadable''), [])"
    by simp
  have b: "Tick 2 ex_cron_deps ex_runtime ?t []
             = Return (NewResponse\<lparr>Status := StatusError,
                                     Error := error_Error (Err ''meta unreadable'')\<rparr>, ?t1, [])"
    using first_error_aborts_tick[OF reload' t1 secrets', where e = "Err ''meta unreadable''"
            and rt = ex_runtime and fuel = 2,
          THEN conjunct2, THEN conjunct1, THEN mp, OF refl]
    .
  from a b show ?thesis by (simp add: NewResponse_def)
qed

section \<open>Properties of the initialisation\<close>

lemma Init_unfold:
  assumes "scheme = (if SourceScheme (config s) = [] then url_Scheme rt (MetaURL (config s)) []
                     else SourceScheme (config s))"
    and "s1 = s\<lparr>config := (config s)\<lparr>SourceScheme := scheme\<rparr>\<rparr>"
  shows "Init rt s storage w =
     (case (if scheme = s3_Scheme then
              (case lambda_New rt w of ((t, err), w1) \<Rightarrow> (err, s1\<lparr>dest := t\<rparr>, w1))
            else if scheme = mem_Scheme then
              (None, s1\<lparr>dest := Some (mem_New rt storage)\<rparr>, w)
            else (Some (Err (''unsupported source scheme: '' @ scheme)), s1, w)) of
        (Some e, s2, w1) \<Rightarrow> (Some e, s2, w1)
      | (None, s2, w1) \<Rightarrow>
          (case Config_Init rt (config s2) storage w1 of
             ((Some e, config1), w2) \<Rightarrow> (Some e, s2\<lparr>config := config1\<rparr>, w2)
           | ((None, config1), w2) \<Rightarrow>
               (case UpdateSecrets_trigger (s2\<lparr>config := config1\<rparr>) w2 of
                  (err, w3) \<Rightarrow> (err, s2\<lparr>config := config1\<rparr>, w3))))"
proof -
  have eq: "(if SourceScheme (config s) = []
             then s\<lparr>config := (config s)\<lparr>SourceScheme := url_Scheme rt (MetaURL (config s)) []\<rparr>\<rparr>
             else s) = s1"
    using assms by simp
  have sch: "SourceScheme (config s1) = scheme"
    using assms(2) by simp
  show ?thesis
    unfolding Init_def Let_def eq sch ..
qed

text \<open>
  C8: \<^verbatim>\<open>Init\<close> of the service with triggers takes the scheme from \<^verbatim>\<open>SourceScheme\<close>, or
  from the scheme of \<^verbatim>\<open>MetaURL\<close> when that is empty. For \<^verbatim>\<open>s3\<close> the trigger is the one
  \<^verbatim>\<open>lambda.New()\<close> returns, and its error ends \<^verbatim>\<open>Init\<close>; for \<^verbatim>\<open>mem\<close> it is the in-memory
  trigger; for any other scheme \<^verbatim>\<open>Init\<close> returns the error
  \<^verbatim>\<open>unsupported source scheme\<close> in the world it was given, whatever the initialisation of
  the configuration would do.
\<close>

theorem Init_dispatches_on_scheme:
  assumes "scheme = (if SourceScheme (config s) = [] then url_Scheme rt (MetaURL (config s)) []
                     else SourceScheme (config s))"
    and "s1 = s\<lparr>config := (config s)\<lparr>SourceScheme := scheme\<rparr>\<rparr>"
  shows "(scheme = s3_Scheme \<and> lambda_New rt w = ((t, lerr), w1) \<longrightarrow>
            (lerr = Some e \<longrightarrow> Init rt s storage w = (Some e, s1\<lparr>dest := t\<rparr>, w1))
          \<and> (lerr = None \<longrightarrow> dest (fst (snd (Init rt s storage w))) = t))
       \<and> (scheme = mem_Scheme \<longrightarrow>
            dest (fst (snd (Init rt s storage w))) = Some (mem_New rt storage))
       \<and> (scheme \<noteq> s3_Scheme \<and> scheme \<noteq> mem_Scheme \<longrightarrow>
            (\<forall>init. Init (rt\<lparr>Config_Init := init\<rparr>) s storage w
               = (Some (Err (''unsupported source scheme: '' @ scheme)), s1, w)))"
proof (intro conjI impI allI)
  assume h: "scheme = s3_Scheme \<and> lambda_New rt w = ((t, lerr), w1)"
  {
    assume "lerr = Some e"
    with h show "Init rt s storage w = (Some e, s1\<lparr>dest := t\<rparr>, w1)"
      by (simp add: Init_unfold[OF assms])
  }
  {
    assume "lerr = None"
    with h show "dest (fst (snd (Init rt s storage w))) = t"
      by (simp add: Init_unfold[OF assms] split: prod.splits option.splits)
  }
next
  assume "scheme = mem_Scheme"
  moreover have "mem_Scheme \<noteq> s3_Scheme" by (simp add: mem_Scheme_def s3_Scheme_def)
  ultimately show "dest (fst (snd (Init rt s storage w))) = Some (mem_New rt storage)"
    by (simp add: Init_unfold[OF assms] split: prod.splits option.splits)
next
  fix init
  assume h: "scheme \<noteq> s3_Scheme \<and> scheme \<noteq> mem_Scheme"
  have "scheme = (if SourceScheme (config s) = []
                  then url_Scheme (rt\<lparr>Config_Init := init\<rparr>) (MetaURL (config s)) []
                  else SourceScheme (config s))"
    using assms(1) by simp
  from Init_unfold[OF this assms(2)] h
  show "Init (rt\<lparr>Config_Init := init\<rparr>) s storage w
          = (Some (Err (''unsupported source scheme: '' @ scheme)), s1, w)"
    by simp
qed

theorem Init_dispatches_on_scheme_witness:
  "dest (fst (snd (Init ex_runtime ex_trigger_service ex_cron_storage [])))
     = Some (mem_New (ex_runtime :: (string list, trigger_Rule, nat) runtime) ex_cron_storage)
   \<and> Init ex_runtime
        (ex_trigger_service\<lparr>config := (config ex_trigger_service)\<lparr>SourceScheme := ''s3''\<rparr>\<rparr>)
        ex_cron_storage []
     = (Some (Err ''no aws session''),
        ex_trigger_service\<lparr>config := (config ex_trigger_service)\<lparr>SourceScheme := ''s3''\<rparr>\<rparr>, [])
   \<and> dest (fst (snd (Init (ex_runtime\<lparr>lambda_New := (\<lambda>w. ((Some ex_trigger, None), w))\<rparr>)
        (ex_trigger_service\<lparr>config := (config ex_trigger_service)\<lparr>SourceScheme := ''s3''\<rparr>\<rparr>)
        ex_cron_storage [])))
     = Some ex_trigger
   \<and> Init ex_runtime
        (ex_trigger_service\<lparr>config := (config ex_trigger_service)\<lparr>MetaURL := ''gs://meta''\<rparr>\<rparr>)
        ex_cron_storage []
     = (Some (Err ''unsupported source scheme: gs''),
        ex_trigger_service\<lparr>config := (config ex_trigger_service)
          \<lparr>MetaURL := ''gs://meta'', SourceScheme := ''gs''\<rparr>\<rparr>, [])"
proof -
  let ?s3 = "ex_trigger_service\<lparr>config := (config ex_trigger_service)\<lparr>SourceScheme := ''s3''\<rparr>\<rparr>"
  let ?gs = "ex_trigger_service\<lparr>config := (config ex_trigger_service)\<lparr>MetaURL := ''gs://meta''\<rparr>\<rparr>"
  let ?gs1 = "ex_trigger_service\<lparr>config := (config ex_trigger_service)
                \<lparr>MetaURL := ''gs://meta'', SourceScheme := ''gs''\<rparr>\<rparr>"
  let ?rt = "ex_runtime\<lparr>lambda_New := (\<lambda>w. ((Some ex_trigger, None), w))\<rparr>
               :: (string list, trigger_Rule, nat) runtime"
  have mem: "''mem'' = (if SourceScheme (config ex_trigger_service) = []
                        then url_Scheme ex_runtime (MetaURL (config ex_trigger_service)) []
                        else SourceScheme (config ex_trigger_service))"
    by (simp add: ex_trigger_service_def ex_runtime_def)
  have a: "dest (fst (snd (Init ex_runtime ex_trigger_service ex_cron_storage [])))
             = Some (mem_New (ex_runtime :: (string list, trigger_Rule, nat) runtime)
                       ex_cron_storage)"
    using Init_dispatches_on_scheme[OF mem refl, where w = "[]" and storage = ex_cron_storage,
            THEN conjunct2, THEN conjunct1, THEN mp]
    by (simp add: mem_Scheme_def)
  have s3: "''s3'' = (if SourceScheme (config ?s3) = []
                      then url_Scheme ex_runtime (MetaURL (config ?s3)) []
                      else SourceScheme (config ?s3))"
    by simp
  have s3': "''s3'' = (if SourceScheme (config ?s3) = []
                      then url_Scheme ?rt (MetaURL (config ?s3)) []
                      else SourceScheme (config ?s3))"
    by simp
  have same: "?s3 = ?s3\<lparr>config := (config ?s3)\<lparr>SourceScheme := ''s3''\<rparr>\<rparr>"
    by simp
  have fails: "''s3'' = s3_Scheme
                 \<and> lambda_New ex_runtime [] = ((None, Some (Err ''no aws session'')), [])"
    by (simp add: s3_Scheme_def ex_runtime_def)
  have b: "Init ex_runtime ?s3 ex_cron_storage [] = (Some (Err ''no aws session''), ?s3, [])"
    using Init_dispatches_on_scheme[OF s3 same, where storage = ex_cron_storage
            and e = "Err ''no aws session''",
            THEN conjunct1, THEN mp, OF fails, THEN conjunct1, THEN mp, OF refl]
    by (simp add: ex_trigger_service_def)
  have works: "''s3'' = s3_Scheme \<and> lambda_New ?rt [] = ((Some ex_trigger, None), [])"
    by (simp add: s3_Scheme_def)
  have c: "dest (fst (snd (Init ?rt ?s3 ex_cron_storage []))) = Some ex_trigger"
    using Init_dispatches_on_scheme[OF s3' same, where storage = ex_cron_storage,
            THEN conjunct1, THEN mp, OF works, THEN conjunct2, THEN mp, OF refl] .
  have gs: "''gs'' = (if SourceScheme (config ?gs) = []
                      then url_Scheme ex_runtime (MetaURL (config ?gs)) []
                      else SourceScheme (config ?gs))"
    by (simp add: ex_trigger_service_def ex_runtime_def)
  have gs1: "?gs1 = ?gs\<lparr>config := (config ?gs)\<lparr>SourceScheme := ''gs''\<rparr>\<rparr>"
    by simp
  have other: "''gs'' \<noteq> s3_Scheme \<and> ''gs'' \<noteq> mem_Scheme"
    by (simp add: s3_Scheme_def mem_Scheme_def)
  have "Init (ex_runtime\<lparr>Config_Init := Config_Init ex_runtime\<rparr>) ?gs ex_cron_storage []
          = (Some (Err (''unsupported source scheme: '' @ ''gs'')), ?gs1, [])"
    using Init_dispatches_on_scheme[OF gs gs1, where storage = ex_cron_storage and w = "[]",
            THEN conjunct2, THEN conjunct2, THEN mp, OF other, THEN spec] .
  then have d: "Init ex_runtime ?gs ex_cron_storage []
                  = (Some (Err ''unsupported source scheme: gs''), ?gs1, [])"
    by simp
  from a b c d show ?thesis by blast
qed

end
